theory Spec2Isabelle
  imports Complex_Main "HOL-Library.Sublist" "HOL-Library.Log_Nat"
begin

section \<open>Strings\<close>

text \<open>
  A Python \<open>str\<close> is modelled as a \<open>string\<close> holding its UTF-8 encoding, the encoding
  the log file is opened with. A character outside ASCII is therefore several \<open>char\<close>s.
\<close>

definition NL :: string where
  "NL = [CHR 0x0A]"

text \<open>
  \<open>str.upper()\<close> on the ASCII letters; every other byte is kept. Python's case mapping
  of the characters beyond ASCII is not modelled.
\<close>

definition upper_char :: "char \<Rightarrow> char" where
  "upper_char c =
     (let n = (of_char c :: nat) in if 97 \<le> n \<and> n \<le> 122 then char_of (n - 32) else c)"

definition upper :: "string \<Rightarrow> string" where
  "upper s = map upper_char s"

section \<open>Severity levels and the filters of \<open>Log.setup\<close>\<close>

text \<open>The numeric levels of Python's \<open>logging\<close> module.\<close>

definition DEBUG :: int where "DEBUG = 10"
definition INFO :: int where "INFO = 20"
definition WARNING :: int where "WARNING = 30"
definition ERROR :: int where "ERROR = 40"
definition CRITICAL :: int where "CRITICAL = 50"

text \<open>
  \<open>logging.getLevelName\<close>: the registered names, and \<open>Level n\<close> for a number that has
  none.
\<close>

fun show_nat :: "nat \<Rightarrow> string" where
  "show_nat n =
     (if n < 10 then [char_of (48 + n)]
      else show_nat (n div 10) @ [char_of (48 + n mod 10)])"

declare show_nat.simps [simp del]

definition show_int :: "int \<Rightarrow> string" where
  "show_int i = (if i < 0 then CHR ''-'' # show_nat (nat (- i)) else show_nat (nat i))"

definition getLevelName :: "int \<Rightarrow> string" where
  "getLevelName l =
     (if l = 50 then ''CRITICAL''
      else if l = 40 then ''ERROR''
      else if l = 30 then ''WARNING''
      else if l = 20 then ''INFO''
      else if l = 10 then ''DEBUG''
      else if l = 0 then ''NOTSET''
      else ''Level '' @ show_int l)"

text \<open>
  The attributes of a \<open>logging.LogRecord\<close> that the four format strings read.
  \<open>cntxt_flag\<close> is absent until \<open>filter_add_cntxt\<close> has stamped the record.
  \<open>Log\<close> never passes exception information, so \<open>exc_info\<close> is always \<open>None\<close> and is
  not a field.
\<close>

record LogRecord =
  levelno :: int
  levelname :: string
  message :: string
  asctime :: string
  name :: string
  threadName :: string
  processName :: string
  pathname :: string
  module :: string
  funcName :: string
  lineno :: int
  cntxt_flag :: "string option"

definition filter_fyi :: "LogRecord \<Rightarrow> bool" where
  "filter_fyi record = (levelno record < 30)"

definition filter_alert :: "LogRecord \<Rightarrow> bool" where
  "filter_alert record = (levelno record \<ge> 30)"

text \<open>The glyphs, as UTF-8: U+26AA, U+2B1B, U+1F7E7, U+1F7E5.\<close>

definition glyph_white_circle :: string where
  "glyph_white_circle = [CHR 0xE2, CHR 0x9A, CHR 0xAA]"

definition glyph_black_square :: string where
  "glyph_black_square = [CHR 0xE2, CHR 0xAC, CHR 0x9B]"

definition glyph_orange_square :: string where
  "glyph_orange_square = [CHR 0xF0, CHR 0x9F, CHR 0x9F, CHR 0xA7]"

definition glyph_red_square :: string where
  "glyph_red_square = [CHR 0xF0, CHR 0x9F, CHR 0x9F, CHR 0xA5]"

definition cntxt_flag_of :: "string \<Rightarrow> string" where
  "cntxt_flag_of lname =
     (if lname = ''DEBUG'' then glyph_white_circle
      else if lname = ''INFO'' then glyph_black_square
      else if lname = ''WARNING'' then glyph_orange_square
      else if lname = ''ERROR'' then glyph_red_square
      else if lname = ''CRITICAL'' then glyph_red_square @ glyph_red_square
      else [])"

text \<open>
  \<open>filter_add_cntxt\<close> mutates the record it is given and accepts it: the model returns
  the verdict and the record as it is afterwards.
\<close>

definition filter_add_cntxt :: "LogRecord \<Rightarrow> bool \<times> LogRecord" where
  "filter_add_cntxt record =
     (True, record\<lparr>cntxt_flag := Some (cntxt_flag_of (levelname record))\<rparr>)"

section \<open>\<open>ExceptionMessageFormatted\<close>\<close>

record ExceptionMessageFormatted =
  title :: string
  details :: string
  suggestions :: string

definition trailer :: string where
  "trailer = ''TRACING INFORMATION APPEARS BELOW:''"

definition details_section :: "ExceptionMessageFormatted \<Rightarrow> string" where
  "details_section m = ''DETAILS:'' @ NL @ details m @ NL @ NL"

definition suggestions_section :: "ExceptionMessageFormatted \<Rightarrow> string" where
  "suggestions_section m = ''SUGGESTIONS:'' @ NL @ suggestions m @ NL @ NL"

definition get :: "ExceptionMessageFormatted \<Rightarrow> string" where
  "get m =
     (let message = upper (title m) @ NL;
          message = (if details m \<noteq> [] then message @ details_section m else message);
          message = (if suggestions m \<noteq> [] then message @ suggestions_section m else message);
          message = message @ trailer
      in message)"

section \<open>Timestamps\<close>

text \<open>
  A \<open>datetime.datetime\<close> holds its calendar fields. Every timestamp of the program comes
  from \<open>datetime.now(datetime.UTC)\<close>, so the time zone is always UTC and is not a field.
\<close>

record datetime =
  year :: nat
  month :: nat
  day :: nat
  hour :: nat
  minute :: nat
  second :: nat
  microsecond :: nat

definition zpad :: "nat \<Rightarrow> string \<Rightarrow> string" where
  "zpad w s = replicate (w - length s) CHR ''0'' @ s"

text \<open>\<open>strftime('%Y%m%d%H%M%S')\<close>: the zero-padded fields, one after the other.\<close>

definition strftime_YmdHMS :: "datetime \<Rightarrow> string" where
  "strftime_YmdHMS t =
     zpad 4 (show_nat (year t)) @ zpad 2 (show_nat (month t)) @ zpad 2 (show_nat (day t))
     @ zpad 2 (show_nat (hour t)) @ zpad 2 (show_nat (minute t)) @ zpad 2 (show_nat (second t))"

text \<open>
  \<open>isoformat()\<close> of a UTC-aware datetime: the fraction is printed only when the
  microsecond is not zero, and the offset is always \<open>+00:00\<close>.
\<close>

definition isoformat :: "datetime \<Rightarrow> string" where
  "isoformat t =
     zpad 4 (show_nat (year t)) @ ''-'' @ zpad 2 (show_nat (month t)) @ ''-''
     @ zpad 2 (show_nat (day t)) @ ''T'' @ zpad 2 (show_nat (hour t)) @ '':''
     @ zpad 2 (show_nat (minute t)) @ '':'' @ zpad 2 (show_nat (second t))
     @ (if microsecond t \<noteq> 0 then ''.'' @ zpad 6 (show_nat (microsecond t)) else [])
     @ ''+00:00''"

text \<open>The proleptic Gregorian ordinal of a date, as \<open>datetime.toordinal\<close> computes it.\<close>

definition is_leap :: "nat \<Rightarrow> bool" where
  "is_leap y = (y mod 4 = 0 \<and> (y mod 100 \<noteq> 0 \<or> y mod 400 = 0))"

definition days_before_year :: "nat \<Rightarrow> int" where
  "days_before_year y =
     (let y1 = int y - 1 in y1 * 365 + y1 div 4 - y1 div 100 + y1 div 400)"

definition days_in_month_table :: "nat list" where
  "days_in_month_table = [31, 28, 31, 30, 31, 30, 31, 31, 30, 31, 30, 31]"

definition days_before_month :: "nat \<Rightarrow> nat \<Rightarrow> int" where
  "days_before_month y m =
     int (sum_list (take (m - 1) days_in_month_table)) + (if m > 2 \<and> is_leap y then 1 else 0)"

definition toordinal :: "datetime \<Rightarrow> int" where
  "toordinal t = days_before_year (year t) + days_before_month (year t) (month t) + int (day t)"

text \<open>
  \<open>a - b\<close> on two datetimes of the same zone is a \<open>timedelta\<close>, an exact number of
  microseconds; the model keeps that number.
\<close>

definition datetime_sub :: "datetime \<Rightarrow> datetime \<Rightarrow> int" where
  "datetime_sub a b =
     (let days = toordinal a - toordinal b;
          secs = (int (second a) + int (minute a) * 60 + int (hour a) * 3600)
                 - (int (second b) + int (minute b) * 60 + int (hour b) * 3600);
          us = int (microsecond a) - int (microsecond b)
      in (days * 86400 + secs) * 1000000 + us)"

subsection \<open>Python floats\<close>

text \<open>
  A Python \<open>float\<close> is an IEEE 754 binary64 number. The model keeps the exact value of a
  finite float as a rational, and every operation rounds its exact result to the nearest
  number with a 53-bit significand, ties to even. The exponent range is not modelled:
  the durations of a \<open>timedelta\<close> are below \<open>10^14\<close> seconds, and the difference of two
  floats is a multiple of a power of two far above the subnormal range, so neither
  overflow nor underflow occurs in \<open>_get_elapsed\<close>.
\<close>

type_synonym pyfloat = rat

definition pow2 :: "int \<Rightarrow> rat" where
  "pow2 e = (if e \<ge> 0 then 2 ^ nat e else 1 / 2 ^ nat (- e))"

definition round_half_even :: "rat \<Rightarrow> int" where
  "round_half_even m =
     (let f = \<lfloor>m\<rfloor>; r = m - of_int f
      in if r < 1 / 2 then f else if r > 1 / 2 then f + 1 else if even f then f else f + 1)"

definition round_double :: "rat \<Rightarrow> pyfloat" where
  "round_double x =
     (if x = 0 then 0
      else
        let a = \<bar>x\<bar>;
            e0 = bitlen (fst (quotient_of a)) - bitlen (snd (quotient_of a)) - 53;
            e = (if a / pow2 e0 \<ge> 2 ^ 53 then e0 + 1 else e0)
        in sgn x * of_int (round_half_even (a / pow2 e)) * pow2 e)"

definition float_of_int :: "int \<Rightarrow> pyfloat" where
  "float_of_int i = round_double (of_int i)"

text \<open>\<open>a / b\<close> on two ints: the exact quotient, rounded once.\<close>

definition int_truediv :: "int \<Rightarrow> int \<Rightarrow> pyfloat" where
  "int_truediv a b = round_double (of_int a / of_int b)"

definition float_add :: "pyfloat \<Rightarrow> pyfloat \<Rightarrow> pyfloat" where
  "float_add x y = round_double (x + y)"

definition float_sub :: "pyfloat \<Rightarrow> pyfloat \<Rightarrow> pyfloat" where
  "float_sub x y = round_double (x - y)"

definition float_mul :: "pyfloat \<Rightarrow> pyfloat \<Rightarrow> pyfloat" where
  "float_mul x y = round_double (x * y)"

definition float_div :: "pyfloat \<Rightarrow> pyfloat \<Rightarrow> pyfloat" where
  "float_div x y = round_double (x / y)"

text \<open>\<open>int(x)\<close> truncates towards zero.\<close>

definition int_of_float :: "pyfloat \<Rightarrow> int" where
  "int_of_float x = (if x \<ge> 0 then \<lfloor>x\<rfloor> else \<lceil>x\<rceil>)"

text \<open>C's \<open>fmod\<close> is exact: the remainder has the sign of \<open>x\<close>.\<close>

definition fmod :: "pyfloat \<Rightarrow> pyfloat \<Rightarrow> pyfloat" where
  "fmod x y = x - y * of_int (int_of_float (x / y))"

text \<open>
  \<open>x // y\<close> on floats, for \<open>y \<noteq> 0\<close>, step by step as CPython's float floor division
  computes it.
\<close>

definition float_floordiv :: "pyfloat \<Rightarrow> pyfloat \<Rightarrow> pyfloat" where
  "float_floordiv vx wx =
     (let md = fmod vx wx;
          dv = float_div (float_sub vx md) wx;
          dv = (if md \<noteq> 0 \<and> ((wx < 0) \<noteq> (md < 0)) then float_sub dv 1 else dv)
      in if dv \<noteq> 0
         then (let floordiv = of_int \<lfloor>dv\<rfloor>
               in if float_sub dv floordiv > 1 / 2 then float_add floordiv 1 else floordiv)
         else 0)"

text \<open>\<open>timedelta.total_seconds()\<close> divides the microseconds by \<open>10**6\<close>.\<close>

definition total_seconds :: "int \<Rightarrow> pyfloat" where
  "total_seconds td = int_truediv td (10 ^ 6)"

subsection \<open>\<open>_Timestamps\<close>\<close>

record Timestamps =
  start :: datetime
  end_time :: "datetime option"

datatype error =
    TypeError
  | AttributeError
  | FileNotFoundError
  | FileExistsError
  | NotADirectoryError
  | IsADirectoryError
  | PermissionError
  | SameFileError
  | KeyError

text \<open>The micro sign of the source is U+03BC, the Greek letter mu.\<close>

definition mu :: string where
  "mu = [CHR 0xCE, CHR 0xBC]"

text \<open>
  The body of \<open>_get_elapsed\<close> on the float \<open>elapsed_seconds\<close>. \<open>included_seconds\<close> is an
  int until the milliseconds are added to it, and a float afterwards.
\<close>

definition elapsed_parts :: "pyfloat \<Rightarrow> int \<times> int \<times> int \<times> int" where
  "elapsed_parts elapsed_seconds =
     (let included_seconds = (0 :: int);
          whole_minutes = int_of_float (float_floordiv elapsed_seconds (float_of_int 60));
          included_seconds = included_seconds + 60 * whole_minutes;
          whole_seconds =
            int_of_float (float_sub elapsed_seconds (float_of_int included_seconds));
          included_seconds = included_seconds + whole_seconds;
          whole_milliseconds =
            int_of_float
              (float_mul (float_sub elapsed_seconds (float_of_int included_seconds))
                 (float_of_int 1000));
          included_float =
            float_add (float_of_int included_seconds) (int_truediv whole_milliseconds 1000);
          whole_microseconds =
            int_of_float
              (float_mul (float_sub elapsed_seconds included_float) (float_of_int 1000000))
      in (whole_minutes, whole_seconds, whole_milliseconds, whole_microseconds))"

definition format_elapsed :: "int \<times> int \<times> int \<times> int \<Rightarrow> string" where
  "format_elapsed p =
     (case p of (whole_minutes, whole_seconds, whole_milliseconds, whole_microseconds) \<Rightarrow>
        show_int whole_minutes @ ''m '' @ show_int whole_seconds @ ''s ''
        @ show_int whole_milliseconds @ ''ms '' @ show_int whole_microseconds @ mu @ ''s'')"

text \<open>Subtracting from \<open>end\<close> while it is still \<open>None\<close> raises \<open>TypeError\<close>.\<close>

definition get_elapsed :: "Timestamps \<Rightarrow> error + string" where
  "get_elapsed ts =
     (case end_time ts of
        None \<Rightarrow> Inl TypeError
      | Some e \<Rightarrow> Inr (format_elapsed (elapsed_parts (total_seconds (datetime_sub e (start ts))))))"

section \<open>Paths and the file system\<close>

text \<open>
  \<open>os.path\<close> on a POSIX system (\<open>posixpath\<close>): the separator is \<open>/\<close> and the
  extension separator is a dot.
\<close>

definition sep :: char where
  "sep = CHR ''/''"

definition os_path_join :: "string \<Rightarrow> string \<Rightarrow> string" where
  "os_path_join a b =
     (if take 1 b = [sep] then b
      else if a = [] \<or> last a = sep then a @ b
      else a @ [sep] @ b)"

definition rstrip_sep :: "string \<Rightarrow> string" where
  "rstrip_sep s = rev (dropWhile (\<lambda>c. c = sep) (rev s))"

definition os_path_dirname :: "string \<Rightarrow> string" where
  "os_path_dirname p =
     (let head = rev (dropWhile (\<lambda>c. c \<noteq> sep) (rev p))
      in if head \<noteq> [] \<and> \<not> list_all (\<lambda>c. c = sep) head then rstrip_sep head else head)"

definition os_path_basename :: "string \<Rightarrow> string" where
  "os_path_basename p = rev (takeWhile (\<lambda>c. c \<noteq> sep) (rev p))"

text \<open>
  \<open>os.path.splitext\<close>: the extension starts at the last dot, provided that dot comes
  after the last separator and some character of the file name before it is not a dot.
\<close>

definition os_path_splitext :: "string \<Rightarrow> string \<times> string" where
  "os_path_splitext p =
     (if CHR ''.'' \<in> set p
      then (let ext = rev (takeWhile (\<lambda>c. c \<noteq> CHR ''.'') (rev p));
                root = take (length p - length ext - 1) p
            in if sep \<in> set ext then (p, [])
               else if list_all (\<lambda>c. c = CHR ''.'') (os_path_basename root) then (p, [])
               else (root, CHR ''.'' # ext))
      else (p, []))"

text \<open>
  The file system is a map from path strings to nodes. A directory carries whether
  entries may be created in it. A path names the node stored under it with its trailing
  separators removed; a regular file is not reached through a path that ends in a
  separator. The keys are taken to be in that normal form, and \<open>.\<close> is the current
  directory, the parent of every relative path without a separator. Links and the
  components \<open>.\<close> and \<open>..\<close> inside a path are not modelled.
\<close>

datatype node = Dir bool | File string

type_synonym filesystem = "string \<Rightarrow> node option"

definition norm_path :: "string \<Rightarrow> string" where
  "norm_path p = (if p \<noteq> [] \<and> list_all (\<lambda>c. c = sep) p then [sep] else rstrip_sep p)"

definition lookup :: "filesystem \<Rightarrow> string \<Rightarrow> node option" where
  "lookup fs p =
     (case fs (norm_path p) of
        Some (File c) \<Rightarrow> (if p \<noteq> [] \<and> last p = sep then None else Some (File c))
      | n \<Rightarrow> n)"

definition parent_dir :: "filesystem \<Rightarrow> string \<Rightarrow> node option" where
  "parent_dir fs p =
     (let d = os_path_dirname (norm_path p) in if d = [] then fs ''.'' else lookup fs d)"

definition os_path_exists :: "filesystem \<Rightarrow> string \<Rightarrow> bool" where
  "os_path_exists fs p = (lookup fs p \<noteq> None)"

definition os_path_isdir :: "filesystem \<Rightarrow> string \<Rightarrow> bool" where
  "os_path_isdir fs p = (case lookup fs p of Some (Dir w) \<Rightarrow> True | _ \<Rightarrow> False)"

text \<open>\<open>os.mkdir\<close> creates one directory; its parent has to be there already.\<close>

definition os_mkdir :: "string \<Rightarrow> filesystem \<Rightarrow> error + filesystem" where
  "os_mkdir p fs =
     (if p = [] then Inl FileNotFoundError
      else if fs (norm_path p) \<noteq> None then Inl FileExistsError
      else case parent_dir fs p of
             None \<Rightarrow> Inl FileNotFoundError
           | Some (File c) \<Rightarrow> Inl NotADirectoryError
           | Some (Dir w) \<Rightarrow>
               if w then Inr (fs(norm_path p \<mapsto> Dir True)) else Inl PermissionError)"

text \<open>
  Opening a file for writing, in mode \<open>a\<close> (\<open>trunc = False\<close>) or \<open>wb\<close>
  (\<open>trunc = True\<close>): the file is created when it is absent.
\<close>

definition open_for_write :: "bool \<Rightarrow> string \<Rightarrow> filesystem \<Rightarrow> error + filesystem" where
  "open_for_write trunc p fs =
     (if p = [] then Inl FileNotFoundError
      else if last p = sep then Inl IsADirectoryError
      else case fs p of
             Some (Dir w) \<Rightarrow> Inl IsADirectoryError
           | Some (File c) \<Rightarrow> Inr (if trunc then fs(p \<mapsto> File []) else fs)
           | None \<Rightarrow>
               (case parent_dir fs p of
                  None \<Rightarrow> Inl FileNotFoundError
                | Some (File c) \<Rightarrow> Inl NotADirectoryError
                | Some (Dir w) \<Rightarrow>
                    if w then Inr (fs(p \<mapsto> File [])) else Inl PermissionError))"

text \<open>A write through an open handle appends to the file the handle was opened on.\<close>

definition append_file :: "string \<Rightarrow> string \<Rightarrow> filesystem \<Rightarrow> filesystem" where
  "append_file p text fs =
     (case fs p of Some (File c) \<Rightarrow> fs(p \<mapsto> File (c @ text)) | _ \<Rightarrow> fs)"

text \<open>
  \<open>shutil.copy(src, dst)\<close>: into the directory \<open>dst\<close> under the name of \<open>src\<close>, or onto
  the file \<open>dst\<close>. \<open>copyfile\<close> refuses to copy a file onto itself, reads \<open>src\<close>, and
  reports a destination that cannot be opened because it does not exist as
  \<open>FileNotFoundError\<close>. The source stays where it is. Permission bits of files are not
  modelled, so \<open>copymode\<close> has no effect.
\<close>

definition shutil_copy :: "string \<Rightarrow> string \<Rightarrow> filesystem \<Rightarrow> error + filesystem" where
  "shutil_copy src dst0 fs =
     (let dst = (if os_path_isdir fs dst0 then os_path_join dst0 (os_path_basename src)
                 else dst0)
      in if os_path_exists fs src \<and> os_path_exists fs dst \<and> norm_path src = norm_path dst
         then Inl SameFileError
         else case lookup fs src of
                None \<Rightarrow> Inl FileNotFoundError
              | Some (Dir w) \<Rightarrow> Inl IsADirectoryError
              | Some (File content) \<Rightarrow>
                  (case open_for_write True dst fs of
                     Inl e \<Rightarrow>
                       Inl (if e = IsADirectoryError \<and> \<not> os_path_exists fs dst
                            then FileNotFoundError else e)
                   | Inr fs' \<Rightarrow> Inr (append_file dst content fs')))"

section \<open>\<open>_ExecInfo\<close>\<close>

record Directories =
  initial :: string
  final :: "string option"

record ExecInfo =
  module_basename :: string
  arguments :: "string list"
  directories :: Directories
  user :: string
  system :: string
  python_version :: string
  timestamps :: Timestamps

text \<open>
  What the default factories and \<open>set_info\<close> read from the process: the user name, the
  text of \<open>platform.uname()\<close>, the interpreter version, \<open>sys.argv\<close>, and how Python
  prints a list of strings.
\<close>

record Platform =
  getuser :: string
  uname :: string
  platform_python_version :: string
  argv :: "string list"
  str_of_list :: "string list \<Rightarrow> string"

text \<open>
  \<open>_ExecInfo()\<close> followed by \<open>set_info\<close>, as \<open>Log.__post_init__\<close> does: the fields that
  start as \<open>None\<close> are assigned before anything reads them. \<open>now\<close> is the clock reading
  that \<open>_Timestamps.__post_init__\<close> stores as the start time.
\<close>

definition set_info :: "Platform \<Rightarrow> datetime \<Rightarrow> string \<Rightarrow> ExecInfo" where
  "set_info pf now module_filepathname =
     \<lparr>module_basename = fst (os_path_splitext (os_path_basename module_filepathname)),
      arguments = drop 1 (argv pf),
      directories = \<lparr>initial = os_path_dirname module_filepathname, final = None\<rparr>,
      user = getuser pf,
      system = uname pf,
      python_version = platform_python_version pf,
      timestamps = \<lparr>start = now, end_time = None\<rparr>\<rparr>"

text \<open>
  \<open>_get_filepathname\<close>, with its two local variables \<open>dirpath\<close> and \<open>basename_ext\<close> as
  functions of the object.
\<close>

definition dirpath :: "ExecInfo \<Rightarrow> string" where
  "dirpath ei =
     (case final (directories ei) of
        None \<Rightarrow> os_path_join (initial (directories ei)) ''logs''
      | Some d \<Rightarrow> d)"

definition basename_ext :: "ExecInfo \<Rightarrow> string" where
  "basename_ext ei =
     module_basename ei @ ''_'' @ strftime_YmdHMS (start (timestamps ei)) @ ''.'' @ ''log''"

definition get_filepathname :: "ExecInfo \<Rightarrow> string" where
  "get_filepathname ei = os_path_join (dirpath ei) (basename_ext ei)"

definition get_module_filepathname :: "ExecInfo \<Rightarrow> string" where
  "get_module_filepathname ei =
     os_path_join (initial (directories ei)) (module_basename ei @ ''.'' @ ''py'')"

section \<open>The logging machinery that \<open>Log.setup\<close> configures\<close>

text \<open>
  What \<open>logging\<close> fills into a record besides the level and the message: the formatted
  creation time and where the call came from. These come from the clock and the
  interpreter, so every emit operation of the model takes them as an argument.
\<close>

record CallSite =
  cs_asctime :: string
  cs_threadName :: string
  cs_processName :: string
  cs_pathname :: string
  cs_module :: string
  cs_funcName :: string
  cs_lineno :: int

text \<open>\<open>Log\<close> logs through the root logger, whose name is \<open>root\<close>.\<close>

definition makeRecord :: "CallSite \<Rightarrow> int \<Rightarrow> string \<Rightarrow> LogRecord" where
  "makeRecord cs lvl msg =
     \<lparr>levelno = lvl, levelname = getLevelName lvl, message = msg,
      asctime = cs_asctime cs, name = ''root'',
      threadName = cs_threadName cs, processName = cs_processName cs,
      pathname = cs_pathname cs, module = cs_module cs, funcName = cs_funcName cs,
      lineno = cs_lineno cs, cntxt_flag = None\<rparr>"

datatype filter_fn = Filter_fyi | Filter_alert | Filter_add_cntxt

fun apply_filter :: "filter_fn \<Rightarrow> LogRecord \<Rightarrow> bool \<times> LogRecord" where
  "apply_filter Filter_fyi r = (filter_fyi r, r)"
| "apply_filter Filter_alert r = (filter_alert r, r)"
| "apply_filter Filter_add_cntxt r = filter_add_cntxt r"

text \<open>
  \<open>Filterer.filter\<close>: the filters run in the order they were added and the first
  rejection stops them, so a later filter does not touch a rejected record.
\<close>

fun run_filters :: "filter_fn list \<Rightarrow> LogRecord \<Rightarrow> bool \<times> LogRecord" where
  "run_filters [] r = (True, r)"
| "run_filters (f # fs) r =
     (case apply_filter f r of (ok, r') \<Rightarrow> if ok then run_filters fs r' else (False, r'))"

text \<open>U+2192, the arrow of the two diagnostic format strings.\<close>

definition arrow :: string where
  "arrow = [CHR 0xE2, CHR 0x86, CHR 0x92]"

datatype formatter = Fmt_stderr_fyi | Fmt_stderr_alert | Fmt_file_fyi | Fmt_file_alert

definition fmt_stderr_fyi :: "LogRecord \<Rightarrow> string" where
  "fmt_stderr_fyi r =
     message r @ '' '' @ NL
     @ asctime r @ '' - '' @ name r @ '' - '' @ levelname r"

definition fmt_stderr_alert :: "LogRecord \<Rightarrow> string" where
  "fmt_stderr_alert r =
     NL
     @ message r @ '' '' @ NL
     @ asctime r @ '' - '' @ name r @ '' - '' @ levelname r @ '' '' @ NL
     @ threadName r @ '' '' @ arrow @ '' '' @ processName r @ '' '' @ NL
     @ pathname r @ '' '' @ NL
     @ arrow @ '' '' @ module r @ '' '' @ arrow @ '' '' @ funcName r @ '' @ ''
       @ show_int (lineno r) @ '' '' @ NL
     @ ''EXCEPTION INFO: None '' @ NL"

definition fmt_file_fyi :: "string \<Rightarrow> LogRecord \<Rightarrow> string" where
  "fmt_file_fyi flag r =
     NL
     @ flag @ '' '' @ message r @ '' '' @ NL
     @ asctime r @ '' - '' @ name r @ '' - '' @ levelname r @ '' '' @ NL"

definition fmt_file_alert :: "string \<Rightarrow> LogRecord \<Rightarrow> string" where
  "fmt_file_alert flag r =
     NL
     @ flag @ '' '' @ message r @ '' '' @ NL
     @ asctime r @ '' - '' @ name r @ '' - '' @ levelname r @ '' '' @ NL
     @ threadName r @ '' '' @ arrow @ '' '' @ processName r @ '' '' @ NL
     @ pathname r @ '' '' @ NL
     @ arrow @ '' '' @ module r @ '' '' @ arrow @ '' '' @ funcName r @ '' @ ''
       @ show_int (lineno r) @ '' '' @ NL
     @ ''EXCEPTION INFO: None '' @ NL"

text \<open>
  \<open>Formatter.format\<close>. The two file formats read \<open>cntxt_flag\<close>; on a record that no
  filter has stamped the interpolation raises \<open>KeyError\<close>.
\<close>

fun format_record :: "formatter \<Rightarrow> LogRecord \<Rightarrow> error + string" where
  "format_record Fmt_stderr_fyi r = Inr (fmt_stderr_fyi r)"
| "format_record Fmt_stderr_alert r = Inr (fmt_stderr_alert r)"
| "format_record Fmt_file_fyi r =
     (case cntxt_flag r of None \<Rightarrow> Inl KeyError | Some g \<Rightarrow> Inr (fmt_file_fyi g r))"
| "format_record Fmt_file_alert r =
     (case cntxt_flag r of None \<Rightarrow> Inl KeyError | Some g \<Rightarrow> Inr (fmt_file_alert g r))"

datatype target = Stderr | LogFile string

record Handler =
  h_target :: target
  h_level :: int
  h_filters :: "filter_fn list"
  h_formatter :: formatter

text \<open>
  The state outside the \<open>Log\<close> object: the file system, what has been written to the
  console, and the level and handlers of the process-wide root logger.
\<close>

record World =
  fs :: filesystem
  stderr :: string
  root_level :: int
  root_handlers :: "Handler list"

definition write_target :: "target \<Rightarrow> string \<Rightarrow> World \<Rightarrow> World" where
  "write_target t text w =
     (case t of
        Stderr \<Rightarrow> w\<lparr>stderr := stderr w @ text\<rparr>
      | LogFile p \<Rightarrow> w\<lparr>fs := append_file p text (fs w)\<rparr>)"

text \<open>
  \<open>StreamHandler.emit\<close> writes the formatted record and a newline. A formatting error
  does not reach the caller: \<open>Handler.handleError\<close> reports it on the console (the
  report is abridged to its first line here).
\<close>

definition emit :: "Handler \<Rightarrow> LogRecord \<Rightarrow> World \<Rightarrow> World" where
  "emit h r w =
     (case format_record (h_formatter h) r of
        Inl e \<Rightarrow> w\<lparr>stderr := stderr w @ ''--- Logging error ---'' @ NL\<rparr>
      | Inr msg \<Rightarrow> write_target (h_target h) (msg @ NL) w)"

text \<open>\<open>Handler.handle\<close>: emit when the handler's filters accept the record.\<close>

definition handle :: "Handler \<Rightarrow> LogRecord \<Rightarrow> World \<Rightarrow> LogRecord \<times> World" where
  "handle h r w =
     (case run_filters (h_filters h) r of (ok, r') \<Rightarrow> (r', if ok then emit h r' w else w))"

text \<open>
  Whether a handler emits a record: \<open>callHandlers\<close> passes the record on when it reaches
  the handler's level, and \<open>handle\<close> emits it when the handler's filters accept it.
\<close>

definition delivers :: "Handler \<Rightarrow> LogRecord \<Rightarrow> bool" where
  "delivers h r = (levelno r \<ge> h_level h \<and> fst (run_filters (h_filters h) r))"

text \<open>
  \<open>Logger.callHandlers\<close>: every handler whose level the record reaches, in the order
  the handlers were added. All of them see the same record object.
\<close>

fun callHandlers :: "Handler list \<Rightarrow> LogRecord \<Rightarrow> World \<Rightarrow> LogRecord \<times> World" where
  "callHandlers [] r w = (r, w)"
| "callHandlers (h # hs) r w =
     (if levelno r \<ge> h_level h
      then (case handle h r w of (r', w') \<Rightarrow> callHandlers hs r' w')
      else callHandlers hs r w)"

text \<open>
  A call of \<open>Logger.debug\<close>, \<open>info\<close>, \<open>warning\<close>, \<open>error\<close> or \<open>critical\<close> on the root
  logger. With no handler at all, \<open>logging\<close> falls back to its last-resort handler, which
  prints the bare message of a record from WARNING up.
\<close>

definition logger_log :: "int \<Rightarrow> CallSite \<Rightarrow> string \<Rightarrow> World \<Rightarrow> World" where
  "logger_log lvl cs msg w =
     (if lvl \<ge> root_level w
      then (if root_handlers w = []
            then (if lvl \<ge> WARNING then w\<lparr>stderr := stderr w @ msg @ NL\<rparr> else w)
            else snd (callHandlers (root_handlers w) (makeRecord cs lvl msg) w))
      else w)"

definition addHandler :: "Handler \<Rightarrow> World \<Rightarrow> World" where
  "addHandler h w = w\<lparr>root_handlers := root_handlers w @ [h]\<rparr>"

section \<open>\<open>Log\<close>\<close>

definition handler_stderr_fyi :: Handler where
  "handler_stderr_fyi =
     \<lparr>h_target = Stderr, h_level = DEBUG, h_filters = [Filter_fyi],
      h_formatter = Fmt_stderr_fyi\<rparr>"

definition handler_file_fyi :: "string \<Rightarrow> Handler" where
  "handler_file_fyi filepathname =
     \<lparr>h_target = LogFile filepathname, h_level = DEBUG,
      h_filters = [Filter_fyi, Filter_add_cntxt], h_formatter = Fmt_file_fyi\<rparr>"

definition handler_file_alert :: "string \<Rightarrow> Handler" where
  "handler_file_alert filepathname =
     \<lparr>h_target = LogFile filepathname, h_level = WARNING,
      h_filters = [Filter_alert, Filter_add_cntxt], h_formatter = Fmt_file_alert\<rparr>"

definition handler_stderr_alert :: Handler where
  "handler_stderr_alert =
     \<lparr>h_target = Stderr, h_level = WARNING, h_filters = [Filter_alert],
      h_formatter = Fmt_stderr_alert\<rparr>"

text \<open>
  \<open>Log.setup\<close>. Creating a \<open>FileHandler\<close> opens the file in append mode at once, which
  can fail; the exception leaves \<open>setup\<close> (here \<open>Log_setup\<close>) with what was configured up to then.
\<close>

definition Log_setup :: "string option \<Rightarrow> World \<Rightarrow> error option \<times> World" where
  "Log_setup filepathname w0 =
     (let w = w0\<lparr>root_level := DEBUG\<rparr>
      in case filepathname of
           None \<Rightarrow> (None, addHandler handler_stderr_alert (addHandler handler_stderr_fyi w))
         | Some p \<Rightarrow>
             (case open_for_write False p (fs w) of
                Inl e \<Rightarrow> (Some e, w)
              | Inr fs1 \<Rightarrow>
                  (let w1 = addHandler (handler_file_fyi p) (w\<lparr>fs := fs1\<rparr>)
                   in case open_for_write False p (fs w1) of
                        Inl e \<Rightarrow> (Some e, w1)
                      | Inr fs2 \<Rightarrow>
                          (None,
                           addHandler handler_stderr_alert
                             (addHandler (handler_file_alert p) (w1\<lparr>fs := fs2\<rparr>))))))"

text \<open>
  The \<open>Log\<close> object. Its \<open>_log\<close> attribute is the root logger, whose state is in the
  \<open>World\<close>.
\<close>

record Log =
  module_filepathname :: string
  exec_info :: ExecInfo

definition debug :: "Log \<Rightarrow> CallSite \<Rightarrow> string \<Rightarrow> World \<Rightarrow> World" where
  "debug lg cs msg w = logger_log DEBUG cs msg w"

definition info :: "Log \<Rightarrow> CallSite \<Rightarrow> string \<Rightarrow> World \<Rightarrow> World" where
  "info lg cs msg w = logger_log INFO cs msg w"

definition warning :: "Log \<Rightarrow> CallSite \<Rightarrow> string \<Rightarrow> World \<Rightarrow> World" where
  "warning lg cs msg w = logger_log WARNING cs msg w"

definition Log_error :: "Log \<Rightarrow> CallSite \<Rightarrow> string \<Rightarrow> World \<Rightarrow> World" where
  "Log_error lg cs msg w = logger_log ERROR cs msg w"

definition critical :: "Log \<Rightarrow> CallSite \<Rightarrow> string \<Rightarrow> World \<Rightarrow> World" where
  "critical lg cs msg w = logger_log CRITICAL cs msg w"

definition get_header :: "Platform \<Rightarrow> Log \<Rightarrow> string" where
  "get_header pf lg =
     (let ei = exec_info lg
      in ''BEGIN LOGGING...'' @ NL
         @ ''START: '' @ isoformat (start (timestamps ei)) @ NL
         @ ''USER: '' @ user ei @ NL
         @ ''OPERATING SYSTEM: '' @ system ei @ NL
         @ ''PYTHON VERSION:: '' @ python_version ei @ NL
         @ ''ROOT: '' @ get_module_filepathname ei @ NL
         @ ''ARGUMENTS: '' @ str_of_list pf (arguments ei) @ NL
         @ ''LOG: '' @ get_filepathname ei @ NL
         @ ''========== STARTING =========='')"

text \<open>
  \<open>_get_footer\<close>. Reading \<open>end.isoformat()\<close> while \<open>end\<close> is \<open>None\<close> raises
  \<open>AttributeError\<close>.
\<close>

definition get_footer :: "Log \<Rightarrow> error + string" where
  "get_footer lg =
     (let ei = exec_info lg;
          footer = ''========== ENDING =========='' @ NL;
          footer = (if final (directories ei) = None
                    then footer @ ''*** Final log directory not specified. ***'' @ NL
                    else footer @ ''Log copied to specified directory.'' @ NL)
      in case end_time (timestamps ei) of
           None \<Rightarrow> Inl AttributeError
         | Some e \<Rightarrow>
             (case get_elapsed (timestamps ei) of
                Inl err \<Rightarrow> Inl err
              | Inr elapsed \<Rightarrow>
                  Inr (footer
                       @ NL
                       @ ''LOG: '' @ get_filepathname ei @ NL
                       @ NL
                       @ ''  END: '' @ isoformat e @ NL
                       @ ''- START: '' @ isoformat (start (timestamps ei)) @ NL
                       @ ''= ELAPSED: '' @ elapsed)))"

text \<open>\<open>Log.initialize\<close>: configure the logger on the log file, then log the header.\<close>

definition initialize :: "Platform \<Rightarrow> Log \<Rightarrow> CallSite \<Rightarrow> World \<Rightarrow> error option \<times> World" where
  "initialize pf lg cs w =
     (case Log_setup (Some (get_filepathname (exec_info lg))) w of
        (Some e, w') \<Rightarrow> (Some e, w')
      | (None, w') \<Rightarrow> (None, info lg cs (get_header pf lg) w'))"

definition logs_created_message :: "Log \<Rightarrow> string \<Rightarrow> ExceptionMessageFormatted" where
  "logs_created_message lg logs_dirpathname =
     \<lparr>title = ''LOGS DIRECTORY CREATED'',
      details =
        ''Module uses logging and needs a log directory.'' @ NL
        @ ''A directory for logs did not exist in '' @ initial (directories (exec_info lg))
        @ ''.'' @ NL
        @ ''Therefore, the logger created '' @ logs_dirpathname @ ''.'',
      suggestions = []\<rparr>"

text \<open>
  Constructing a \<open>Log\<close>: the generated \<open>__init__\<close> stores the fields, with a fresh
  \<open>_ExecInfo\<close> that \<open>__post_init__\<close> fills in at once through \<open>set_info\<close>.
\<close>

definition new_Log :: "Platform \<Rightarrow> datetime \<Rightarrow> string \<Rightarrow> Log" where
  "new_Log pf now path = \<lparr>module_filepathname = path, exec_info = set_info pf now path\<rparr>"

text \<open>The local variable \<open>logs_dirpathname\<close> of \<open>__post_init__\<close>.\<close>

definition logs_dirpathname :: "Log \<Rightarrow> string" where
  "logs_dirpathname lg = os_path_join (initial (directories (exec_info lg))) ''logs''"

text \<open>
  \<open>__post_init__\<close>. \<open>cs_header\<close> and \<open>cs_notice\<close> are the call sites and times of the two
  records it may log. The result is the object, or the exception that ended the
  construction, and the world as it is then.
\<close>

definition post_init ::
  "Platform \<Rightarrow> datetime \<Rightarrow> string \<Rightarrow> CallSite \<Rightarrow> CallSite \<Rightarrow> World \<Rightarrow> (error + Log) \<times> World" where
  "post_init pf now path cs_header cs_notice w =
     (let lg = new_Log pf now path
      in if \<not> os_path_exists (fs w) (logs_dirpathname lg)
         then (case os_mkdir (logs_dirpathname lg) (fs w) of
                 Inl e \<Rightarrow> (Inl e, w)
               | Inr fs1 \<Rightarrow>
                   (case initialize pf lg cs_header (w\<lparr>fs := fs1\<rparr>) of
                      (Some e, w1) \<Rightarrow> (Inl e, w1)
                    | (None, w1) \<Rightarrow>
                        (Inr lg,
                         warning lg cs_notice
                           (get (logs_created_message lg (logs_dirpathname lg))) w1)))
         else (case initialize pf lg cs_header w of
                 (Some e, w1) \<Rightarrow> (Inl e, w1)
               | (None, w1) \<Rightarrow> (Inr lg, w1)))"

text \<open>
  \<open>Log.terminate\<close>. \<open>now\<close> is the clock reading stored as the end time.
  \<open>terminate_begin\<close> is its first three statements: the end time is stored, the path of
  the log file is read into \<open>logfile_pathname\<close>, and only then the final directory is
  stored. It gives \<open>logfile_pathname\<close> and the object as it is after them.
\<close>

definition terminate_begin :: "Log \<Rightarrow> datetime \<Rightarrow> string option \<Rightarrow> string \<times> Log" where
  "terminate_begin lg0 now dirpathname =
     (let ei0 = exec_info lg0;
          lg1 = lg0\<lparr>exec_info := ei0\<lparr>timestamps := (timestamps ei0)\<lparr>end_time := Some now\<rparr>\<rparr>\<rparr>;
          logfile_pathname = get_filepathname (exec_info lg1);
          ei1 = exec_info lg1;
          lg2 = lg1\<lparr>exec_info := ei1\<lparr>directories := (directories ei1)\<lparr>final := dirpathname\<rparr>\<rparr>\<rparr>
      in (logfile_pathname, lg2))"

text \<open>
  The rest of \<open>terminate\<close>: the footer is logged, then the file is copied when a
  directory was given. The result is the exception that ended the call, if any, with the
  object and the world as they are then.
\<close>

definition terminate ::
  "Log \<Rightarrow> datetime \<Rightarrow> string option \<Rightarrow> CallSite \<Rightarrow> World \<Rightarrow> error option \<times> Log \<times> World" where
  "terminate lg0 now dirpathname cs w =
     (case terminate_begin lg0 now dirpathname of
        (logfile_pathname, lg2) \<Rightarrow>
          (case get_footer lg2 of
             Inl e \<Rightarrow> (Some e, lg2, w)
           | Inr footer \<Rightarrow>
               (let w1 = info lg2 cs footer w
                in case dirpathname of
                     None \<Rightarrow> (None, lg2, w1)
                   | Some d \<Rightarrow>
                       (case shutil_copy logfile_pathname d (fs w1) of
                          Inl e \<Rightarrow> (Some e, lg2, w1)
                        | Inr fs' \<Rightarrow> (None, lg2, w1\<lparr>fs := fs'\<rparr>)))))"

text \<open>The footer that \<open>terminate\<close> logs: what \<open>_get_footer\<close> returns after those statements.\<close>

definition footer_of :: "Log \<Rightarrow> datetime \<Rightarrow> string option \<Rightarrow> string" where
  "footer_of lg now d =
     (case get_footer (snd (terminate_begin lg now d)) of Inl e \<Rightarrow> [] | Inr footer \<Rightarrow> footer)"

text \<open>
  A session between construction and termination: the root logger carries exactly the
  three handlers that \<open>Log.setup\<close> adds for the log file of this object, the file is
  there, no final directory is stored yet, and the module's base name has no separator
  in it (it is a base name).
\<close>

definition session_active :: "Log \<Rightarrow> World \<Rightarrow> bool" where
  "session_active lg w =
     (let p = get_filepathname (exec_info lg)
      in root_level w = DEBUG
         \<and> root_handlers w = [handler_file_fyi p, handler_file_alert p, handler_stderr_alert]
         \<and> (case fs w p of Some (File c) \<Rightarrow> True | _ \<Rightarrow> False)
         \<and> final (directories (exec_info lg)) = None
         \<and> sep \<notin> set (module_basename (exec_info lg)))"

text \<open>What the log file holds.\<close>

definition file_content :: "World \<Rightarrow> string \<Rightarrow> string" where
  "file_content w p = (case fs w p of Some (File c) \<Rightarrow> c | _ \<Rightarrow> [])"

section \<open>\<open>variable_value_message\<close>\<close>

text \<open>
  A Python value, as far as \<open>get\<close> looks at it: the classes its type inherits from
  (its own class first), how \<open>type(value)\<close> prints, and how the value prints.
\<close>

datatype pyclass =
    Cbool | Cbytes | Cint | Cfloat | Cstr | Clist | Ctuple | CNoneType
  | Cdict | Cset | Cother string

record PyValue =
  mro :: "pyclass list"
  type_str :: string
  value_str :: string

definition isinstance :: "PyValue \<Rightarrow> pyclass list \<Rightarrow> bool" where
  "isinstance v classes = list_ex (\<lambda>c. List.member classes c) (mro v)"

text \<open>The settings of the module's \<open>pprint.PrettyPrinter\<close>.\<close>

record PrettyPrinter =
  indent :: nat
  width :: nat
  compact :: bool
  sort_dicts :: bool

definition pp :: PrettyPrinter where
  "pp = \<lparr>indent = 4, width = 160, compact = False, sort_dicts = False\<rparr>"

text \<open>U+1F50E and U+1F50D, the magnifying glasses around \<open>VarVal\<close>.\<close>

definition varval_tag :: string where
  "varval_tag =
     [CHR 0xF0, CHR 0x9F, CHR 0x94, CHR 0x8E] @ ''VarVal'' @ [CHR 0xF0, CHR 0x9F, CHR 0x94, CHR 0x8D]"

text \<open>
  \<open>variable_value_message.get\<close>. \<open>pformat\<close> is the pretty-printer of the standard
  library, given its settings and the value.
\<close>

definition variable_value_message_get ::
  "(PrettyPrinter \<Rightarrow> PyValue \<Rightarrow> string) \<Rightarrow> string \<Rightarrow> PyValue \<Rightarrow> string" where
  "variable_value_message_get pformat nm v =
     (if isinstance v [Cbool, Cbytes, Cint, Cfloat, Cstr, Clist, Ctuple, CNoneType]
      then varval_tag @ '' '' @ nm @ '' ('' @ type_str v @ ''): '' @ value_str v
      else varval_tag @ '' '' @ nm @ '' ('' @ type_str v @ ''):'' @ NL @ pformat pp v)"

section \<open>Sample inputs\<close>

text \<open>Concrete values at which the properties below are instantiated.\<close>

definition sample_start :: datetime where
  "sample_start =
     \<lparr>year = 2024, month = 3, day = 5, hour = 7, minute = 8, second = 9, microsecond = 120\<rparr>"

definition sample_end :: datetime where
  "sample_end =
     \<lparr>year = 2024, month = 3, day = 5, hour = 7, minute = 10, second = 14,
      microsecond = 456820\<rparr>"

definition sample_int :: PyValue where
  "sample_int =
     \<lparr>mro = [Cint], type_str = ''<class '' @ [CHR 0x27] @ ''int'' @ [CHR 0x27] @ ''>'',
      value_str = ''5''\<rparr>"

definition sample_dict :: PyValue where
  "sample_dict =
     \<lparr>mro = [Cdict], type_str = ''<class '' @ [CHR 0x27] @ ''dict'' @ [CHR 0x27] @ ''>'',
      value_str = ''{1: 2}''\<rparr>"

definition sample_platform :: Platform where
  "sample_platform =
     \<lparr>getuser = ''user'', uname = ''Linux'', platform_python_version = ''3.12.0'',
      argv = [''test.py''], str_of_list = (\<lambda>xs. ''[]'')\<rparr>"

definition sample_callsite :: CallSite where
  "sample_callsite =
     \<lparr>cs_asctime = ''2024-03-05 07:08:09 +0000'', cs_threadName = ''MainThread'',
      cs_processName = ''MainProcess'', cs_pathname = ''/a/b/lib/classes/log/__init__.py'',
      cs_module = ''__init__'', cs_funcName = ''info'', cs_lineno = 161\<rparr>"

definition sample_log :: Log where
  "sample_log = new_Log sample_platform sample_start ''/a/b/test.py''"

definition sample_logfile :: string where
  "sample_logfile = ''/a/b/logs/test_20240305070809.log''"

text \<open>A fresh process in three file systems: without the source directory, with it, and
  with its \<open>logs\<close> directory as well.\<close>

definition sample_world_bare :: World where
  "sample_world_bare =
     \<lparr>fs = [''/out'' \<mapsto> Dir True], stderr = [], root_level = 30, root_handlers = []\<rparr>"

definition sample_world :: World where
  "sample_world =
     \<lparr>fs = [''/a/b'' \<mapsto> Dir True, ''/out'' \<mapsto> Dir True], stderr = [], root_level = 30,
      root_handlers = []\<rparr>"

definition sample_world_logs :: World where
  "sample_world_logs =
     \<lparr>fs = [''/a/b'' \<mapsto> Dir True, ''/a/b/logs'' \<mapsto> Dir True, ''/out'' \<mapsto> Dir True],
      stderr = [], root_level = 30, root_handlers = []\<rparr>"

text \<open>A running session: the log file is there and the three handlers are installed.\<close>

definition sample_session :: World where
  "sample_session =
     \<lparr>fs = [''/a/b'' \<mapsto> Dir True, ''/a/b/logs'' \<mapsto> Dir True, ''/out'' \<mapsto> Dir True,
            sample_logfile \<mapsto> File ''header''],
      stderr = [], root_level = 10,
      root_handlers = [handler_file_fyi sample_logfile, handler_file_alert sample_logfile,
                       handler_stderr_alert]\<rparr>"

section \<open>Properties\<close>

subsection \<open>The two severity filters\<close>

text \<open>
  Claim C1. The FYI filter accepts a record exactly when its level is strictly below
  WARNING, the ALERT filter exactly when its level is WARNING or above, so exactly one
  of the two accepts any record, whatever its level number.
\<close>

theorem filter_fyi_alert_partition:
  "filter_fyi r = (levelno r < WARNING)
   \<and> filter_alert r = (levelno r \<ge> WARNING)
   \<and> filter_fyi r \<noteq> filter_alert r"
  by (auto simp: filter_fyi_def filter_alert_def WARNING_def)

subsection \<open>The exception banner\<close>

lemma get_sections_eq:
  "get m = upper (title m) @ NL
     @ (if details m = [] then [] else ''DETAILS:'' @ NL @ details m @ NL @ NL)
     @ (if suggestions m = [] then [] else ''SUGGESTIONS:'' @ NL @ suggestions m @ NL @ NL)
     @ trailer"
  by (simp add: get_def Let_def details_section_def suggestions_section_def)

lemma get_details_prefix:
  "prefix (upper (title m) @ NL @ ''DETAILS:'' @ NL) (get m) \<longleftrightarrow> details m \<noteq> []"
  by (simp add: get_sections_eq trailer_def NL_def)

lemma upper_alert: "upper ''alert'' = ''ALERT''"
  by code_simp

text \<open>
  Claim C6, as the spec states it: with only a title the banner would be the uppercase
  title line, a blank line, and the trailer. The code puts one newline after the title,
  so there is no blank line: the statement fails for the title \<open>x\<close>.
\<close>

theorem get_title_only_counterexample:
  "get \<lparr>title = ''x'', details = [], suggestions = []\<rparr> \<noteq> upper ''x'' @ NL @ NL @ trailer"
  by (simp add: get_sections_eq NL_def trailer_def)

text \<open>
  Claim C6, amended. With only a title the banner is exactly the uppercase title line
  followed at once by the trailer line. In general the title line is followed by the
  DETAILS section (header line, the details, a blank line) if and only if the details
  are not empty, then by the SUGGESTIONS section (header line, the suggestions, a blank
  line) if and only if the suggestions are not empty, then by the trailer.
\<close>

theorem get_banner_sections:
  "get \<lparr>title = t, details = [], suggestions = []\<rparr> = upper t @ NL @ trailer
   \<and> get m = upper (title m) @ NL
        @ (if details m = [] then [] else ''DETAILS:'' @ NL @ details m @ NL @ NL)
        @ (if suggestions m = [] then [] else ''SUGGESTIONS:'' @ NL @ suggestions m @ NL @ NL)
        @ trailer
   \<and> (prefix (upper (title m) @ NL @ ''DETAILS:'' @ NL) (get m) \<longleftrightarrow> details m \<noteq> [])"
proof -
  have "get \<lparr>title = t, details = [], suggestions = []\<rparr> = upper t @ NL @ trailer"
    by (simp add: get_sections_eq)
  then show ?thesis
    using get_sections_eq [of m] get_details_prefix [of m] by blast
qed

theorem get_banner_sections_witness:
  "get \<lparr>title = ''alert'', details = [], suggestions = []\<rparr> = ''ALERT'' @ NL @ trailer
   \<and> get \<lparr>title = ''alert'', details = ''d'', suggestions = ''s''\<rparr>
       = ''ALERT'' @ NL @ ''DETAILS:'' @ NL @ ''d'' @ NL @ NL
         @ ''SUGGESTIONS:'' @ NL @ ''s'' @ NL @ NL @ trailer"
  using get_banner_sections
    [of "''alert''" "\<lparr>title = ''alert'', details = ''d'', suggestions = ''s''\<rparr>"]
  by (simp add: upper_alert)

subsection \<open>The elapsed time\<close>

lemma sample_duration: "datetime_sub sample_end sample_start = 125456700"
  by (simp add: datetime_sub_def toordinal_def sample_end_def sample_start_def)

lemma elapsed_parts_sample: "elapsed_parts (total_seconds 125456700) = (2, 5, 456, 699)"
  by code_simp

lemma format_elapsed_sample:
  "format_elapsed (2, 5, 456, 699) = ''2m 5s 456ms 699'' @ mu @ ''s''"
  by code_simp

text \<open>
  Claim C3. The claim expects \<open>2m 5s 456ms 700\<close> microseconds for an end 125.4567
  seconds after the start. \<open>_get_elapsed\<close> works on the float \<open>125.4567\<close>, which is not
  exactly representable: the remainder left after the minutes, seconds and milliseconds
  is a little below 0.0007, and \<open>int\<close> truncates its product with 1000000 to 699. For
  the start 2024-03-05 07:08:09.000120 and the end 2024-03-05 07:10:14.456820, which
  are 125456700 microseconds apart, the code returns 699 microseconds.
\<close>

theorem get_elapsed_125_4567:
  "get_elapsed \<lparr>start = sample_start, end_time = Some sample_end\<rparr>
   = Inr (''2m 5s 456ms 699'' @ mu @ ''s'')"
  by (simp add: get_elapsed_def sample_duration elapsed_parts_sample format_elapsed_sample)

subsection \<open>The variable dump\<close>

text \<open>
  Claim C9. For a value whose type is, or inherits from, bool, bytes, int, float, str,
  list, tuple or NoneType, \<open>get\<close> returns one string made of the tag, the name, the
  type in parentheses, a colon, a space and the value as it prints. For every other
  value it returns that heading ending in the colon, a newline, and the value as the
  pretty-printer with indent 4, width 160, not compact and unsorted keys lays it out.
\<close>

theorem variable_value_message_get_forms:
  "(isinstance v [Cbool, Cbytes, Cint, Cfloat, Cstr, Clist, Ctuple, CNoneType] \<longrightarrow>
      variable_value_message_get pformat nm v
      = varval_tag @ '' '' @ nm @ '' ('' @ type_str v @ ''): '' @ value_str v)
   \<and> (\<not> isinstance v [Cbool, Cbytes, Cint, Cfloat, Cstr, Clist, Ctuple, CNoneType] \<longrightarrow>
      variable_value_message_get pformat nm v
      = varval_tag @ '' '' @ nm @ '' ('' @ type_str v @ ''):'' @ NL
        @ pformat \<lparr>indent = 4, width = 160, compact = False, sort_dicts = False\<rparr> v)"
  by (simp add: variable_value_message_get_def pp_def)

theorem variable_value_message_get_forms_witness:
  "variable_value_message_get (\<lambda>cfg v. value_str v) ''x'' sample_int
   = varval_tag @ '' x ('' @ type_str sample_int @ ''): 5''
   \<and> variable_value_message_get (\<lambda>cfg v. value_str v) ''d'' sample_dict
     = varval_tag @ '' d ('' @ type_str sample_dict @ ''):'' @ NL @ ''{1: 2}''"
proof -
  have a: "isinstance sample_int [Cbool, Cbytes, Cint, Cfloat, Cstr, Clist, Ctuple, CNoneType]"
    by (simp add: isinstance_def sample_int_def)
  have b: "\<not> isinstance sample_dict [Cbool, Cbytes, Cint, Cfloat, Cstr, Clist, Ctuple, CNoneType]"
    by (simp add: isinstance_def sample_dict_def)
  have c: "value_str sample_int = ''5''" "value_str sample_dict = ''{1: 2}''"
    by (simp_all add: sample_int_def sample_dict_def)
  show ?thesis
    using variable_value_message_get_forms [of sample_int "\<lambda>cfg v. value_str v" "''x''"]
      variable_value_message_get_forms [of sample_dict "\<lambda>cfg v. value_str v" "''d''"] a b c
    by simp
qed

subsection \<open>Paths\<close>

lemma os_path_join_last:
  "b \<noteq> [] \<Longrightarrow> os_path_join a b \<noteq> [] \<and> last (os_path_join a b) = last b"
  by (simp add: os_path_join_def)

lemma digit_not_sep: "k < 10 \<Longrightarrow> char_of (48 + k :: nat) \<noteq> sep"
proof
  assume k: "k < 10" and e: "char_of (48 + k) = sep"
  have "of_char (char_of (48 + k) :: char) = (of_char sep :: nat)" using e by simp
  then show False using k by (simp add: sep_def)
qed

lemma sep_notin_show_nat: "sep \<notin> set (show_nat n)"
proof (induction n rule: show_nat.induct)
  case (1 n)
  show ?case
  proof (cases "n < 10")
    case True
    then show ?thesis using digit_not_sep [of n] by (subst show_nat.simps) auto
  next
    case False
    have "n mod 10 < 10" by simp
    then have "char_of (48 + n mod 10) \<noteq> sep" by (rule digit_not_sep)
    then show ?thesis using False 1 by (subst show_nat.simps) auto
  qed
qed

lemma sep_notin_zpad: "sep \<notin> set s \<Longrightarrow> sep \<notin> set (zpad w s)"
  by (auto simp: zpad_def sep_def)

lemma sep_notin_strftime: "sep \<notin> set (strftime_YmdHMS t)"
  by (simp add: strftime_YmdHMS_def sep_notin_zpad sep_notin_show_nat)

lemma sep_notin_basename_ext:
  "sep \<notin> set (module_basename ei) \<Longrightarrow> sep \<notin> set (basename_ext ei)"
  using sep_notin_strftime [of "start (timestamps ei)"]
  by (auto simp: basename_ext_def sep_def)

lemma basename_ext_last: "basename_ext ei \<noteq> [] \<and> last (basename_ext ei) \<noteq> sep"
  by (simp add: basename_ext_def sep_def)

lemma os_path_join_name:
  "sep \<notin> set n \<Longrightarrow>
   os_path_join a n = (if a = [] \<or> last a = sep then a @ n else a @ [sep] @ n)"
  by (cases n) (auto simp: os_path_join_def)

lemma logs_dir_last:
  "os_path_join i ''logs'' \<noteq> [] \<and> last (os_path_join i ''logs'') \<noteq> sep"
  by (simp add: os_path_join_def sep_def)

lemma rstrip_sep_id: "p \<noteq> [] \<Longrightarrow> last p \<noteq> sep \<Longrightarrow> rstrip_sep p = p"
proof -
  assume "p \<noteq> []" "last p \<noteq> sep"
  then obtain c cs where r: "rev p = c # cs" and "c \<noteq> sep"
    by (metis hd_rev list.exhaust_sel rev_is_Nil_conv)
  then have "dropWhile (\<lambda>c. c = sep) (rev p) = rev p" by simp
  then show ?thesis by (simp add: rstrip_sep_def)
qed

lemma norm_path_id: "p \<noteq> [] \<Longrightarrow> last p \<noteq> sep \<Longrightarrow> norm_path p = p"
proof -
  assume a: "p \<noteq> []" "last p \<noteq> sep"
  then have "last p \<in> set p" by simp
  then have "\<not> list_all (\<lambda>c. c = sep) p" using a by (auto simp: list_all_iff)
  then show ?thesis using a by (simp add: norm_path_def rstrip_sep_id)
qed

lemma os_path_dirname_join:
  assumes "sep \<notin> set n" "a \<noteq> []" "last a \<noteq> sep"
  shows "os_path_dirname (a @ [sep] @ n) = a"
proof -
  have "dropWhile (\<lambda>c. c \<noteq> sep) (rev (a @ [sep] @ n)) = sep # rev a"
    using assms(1) by (simp add: dropWhile_append)
  then have h: "rev (dropWhile (\<lambda>c. c \<noteq> sep) (rev (a @ [sep] @ n))) = a @ [sep]" by simp
  have "last a \<in> set a" using assms by simp
  then have "\<not> list_all (\<lambda>c. c = sep) (a @ [sep])" using assms by (auto simp: list_all_iff)
  moreover have "rstrip_sep (a @ [sep]) = a"
    using rstrip_sep_id [OF assms(2,3)] by (simp add: rstrip_sep_def)
  ultimately show ?thesis unfolding os_path_dirname_def h by (simp add: Let_def)
qed

lemma os_path_basename_join:
  assumes "sep \<notin> set n"
  shows "os_path_basename (a @ [sep] @ n) = n"
  using assms by (simp add: os_path_basename_def takeWhile_append)

lemma sep_notin_basename: "sep \<notin> set (os_path_basename p)"
proof -
  have "\<forall>c \<in> set (takeWhile (\<lambda>c. c \<noteq> sep) (rev p)). c \<noteq> sep"
    using set_takeWhileD by fastforce
  then show ?thesis by (auto simp: os_path_basename_def)
qed

lemma splitext_fst_subset: "set (fst (os_path_splitext p)) \<subseteq> set p"
  by (auto simp: os_path_splitext_def Let_def dest: in_set_takeD)

lemma sep_notin_module_basename: "sep \<notin> set (module_basename (set_info pf now path))"
  using splitext_fst_subset [of "os_path_basename path"] sep_notin_basename [of path]
  by (auto simp: set_info_def)


subsection \<open>The logger\<close>

lemma getLevelName_levels:
  "getLevelName DEBUG = ''DEBUG''" "getLevelName INFO = ''INFO''"
  "getLevelName WARNING = ''WARNING''" "getLevelName ERROR = ''ERROR''"
  "getLevelName CRITICAL = ''CRITICAL''"
  by (simp_all add: getLevelName_def DEBUG_def INFO_def WARNING_def ERROR_def CRITICAL_def)

lemma cntxt_flag_of_levels:
  "cntxt_flag_of ''DEBUG'' = glyph_white_circle" "cntxt_flag_of ''INFO'' = glyph_black_square"
  "cntxt_flag_of ''WARNING'' = glyph_orange_square" "cntxt_flag_of ''ERROR'' = glyph_red_square"
  "cntxt_flag_of ''CRITICAL'' = glyph_red_square @ glyph_red_square"
  by (simp_all add: cntxt_flag_of_def)

lemma fmt_file_fyi_flag [simp]: "fmt_file_fyi g (r\<lparr>cntxt_flag := x\<rparr>) = fmt_file_fyi g r"
  by (simp add: fmt_file_fyi_def)

lemma fmt_file_alert_flag [simp]: "fmt_file_alert g (r\<lparr>cntxt_flag := x\<rparr>) = fmt_file_alert g r"
  by (simp add: fmt_file_alert_def)

lemma fmt_stderr_alert_flag [simp]: "fmt_stderr_alert (r\<lparr>cntxt_flag := x\<rparr>) = fmt_stderr_alert r"
  by (simp add: fmt_stderr_alert_def)

lemma makeRecord_sel [simp]:
  "levelno (makeRecord cs l m) = l" "levelname (makeRecord cs l m) = getLevelName l"
  "cntxt_flag (makeRecord cs l m) = None" "message (makeRecord cs l m) = m"
  by (simp_all add: makeRecord_def)

lemma callHandlers_fyi:
  assumes "l < 30" "10 \<le> l"
  shows "callHandlers [handler_file_fyi p, handler_file_alert p, handler_stderr_alert]
           (makeRecord cs l m) w
         = (makeRecord cs l m\<lparr>cntxt_flag := Some (cntxt_flag_of (getLevelName l))\<rparr>,
            w\<lparr>fs := append_file p
                 (fmt_file_fyi (cntxt_flag_of (getLevelName l)) (makeRecord cs l m) @ NL) (fs w)\<rparr>)"
  using assms
  by (simp add: handler_file_fyi_def handler_file_alert_def handler_stderr_alert_def handle_def
      filter_fyi_def filter_alert_def filter_add_cntxt_def emit_def write_target_def
      DEBUG_def WARNING_def)

lemma callHandlers_alert:
  assumes "30 \<le> l"
  shows "callHandlers [handler_file_fyi p, handler_file_alert p, handler_stderr_alert]
           (makeRecord cs l m) w
         = (makeRecord cs l m\<lparr>cntxt_flag := Some (cntxt_flag_of (getLevelName l))\<rparr>,
            w\<lparr>fs := append_file p
                 (fmt_file_alert (cntxt_flag_of (getLevelName l)) (makeRecord cs l m) @ NL) (fs w),
              stderr := stderr w @ fmt_stderr_alert (makeRecord cs l m) @ NL\<rparr>)"
  using assms
  by (simp add: handler_file_fyi_def handler_file_alert_def handler_stderr_alert_def handle_def
      filter_fyi_def filter_alert_def filter_add_cntxt_def emit_def write_target_def
      DEBUG_def WARNING_def)


lemma logger_log_fyi:
  assumes "root_level w = DEBUG"
    "root_handlers w = [handler_file_fyi p, handler_file_alert p, handler_stderr_alert]"
    "fs w p = Some (File c)" "10 \<le> l" "l < 30"
  shows "logger_log l cs m w
         = w\<lparr>fs := (fs w)(p \<mapsto> File (c @ fmt_file_fyi (cntxt_flag_of (getLevelName l))
                                           (makeRecord cs l m) @ NL))\<rparr>"
  using assms
  by (simp add: logger_log_def callHandlers_fyi append_file_def DEBUG_def del: callHandlers.simps)

lemma logger_log_alert:
  assumes "root_level w = DEBUG"
    "root_handlers w = [handler_file_fyi p, handler_file_alert p, handler_stderr_alert]"
    "fs w p = Some (File c)" "30 \<le> l"
  shows "logger_log l cs m w
         = w\<lparr>fs := (fs w)(p \<mapsto> File (c @ fmt_file_alert (cntxt_flag_of (getLevelName l))
                                           (makeRecord cs l m) @ NL)),
              stderr := stderr w @ fmt_stderr_alert (makeRecord cs l m) @ NL\<rparr>"
  using assms
  by (simp add: logger_log_def callHandlers_alert append_file_def DEBUG_def del: callHandlers.simps)

lemma open_for_write_append:
  assumes "open_for_write False p f = Inr f'"
  shows "p \<noteq> [] \<and> last p \<noteq> sep
         \<and> f' = (case f p of None \<Rightarrow> f(p \<mapsto> File []) | Some n \<Rightarrow> f)
         \<and> (\<exists>c. f' p = Some (File c))"
  using assms
  by (auto simp: open_for_write_def split: if_splits option.splits node.splits)

lemma open_for_write_again:
  assumes "f p = Some (File c)" "p \<noteq> []" "last p \<noteq> sep"
  shows "open_for_write False p f = Inr f"
  using assms by (simp add: open_for_write_def)

lemma Log_setup_file:
  assumes "Log_setup (Some p) w0 = (None, w)"
  shows "root_level w = DEBUG
         \<and> root_handlers w
           = root_handlers w0 @ [handler_file_fyi p, handler_file_alert p, handler_stderr_alert]
         \<and> stderr w = stderr w0
         \<and> fs w = (case fs w0 p of None \<Rightarrow> (fs w0)(p \<mapsto> File []) | Some n \<Rightarrow> fs w0)
         \<and> (\<exists>c. fs w p = Some (File c))
         \<and> p \<noteq> [] \<and> last p \<noteq> sep"
proof (cases "open_for_write False p (fs w0)")
  case (Inl e)
  then show ?thesis using assms by (simp add: Log_setup_def Let_def)
next
  case (Inr f1)
  note o = open_for_write_append [OF Inr]
  then obtain c where c: "f1 p = Some (File c)" by blast
  have again: "open_for_write False p f1 = Inr f1"
    using open_for_write_again [of f1 p c] c o by simp
  have "w = addHandler handler_stderr_alert (addHandler (handler_file_alert p)
              (addHandler (handler_file_fyi p) (w0\<lparr>root_level := DEBUG, fs := f1\<rparr>)))"
    using assms Inr again by (simp add: Log_setup_def Let_def addHandler_def)
  then show ?thesis using o c by (simp add: addHandler_def)
qed

lemma delivers_session:
  "delivers (handler_file_fyi p) (makeRecord cs l m) = (10 \<le> l \<and> l < 30)"
  "delivers (handler_file_alert p) (makeRecord cs l m) = (30 \<le> l)"
  "delivers handler_stderr_alert (makeRecord cs l m) = (30 \<le> l)"
  by (auto simp: delivers_def handler_file_fyi_def handler_file_alert_def handler_stderr_alert_def
      filter_fyi_def filter_alert_def filter_add_cntxt_def DEBUG_def WARNING_def)

text \<open>
  Claim C2. After \<open>setup\<close> with a log file path on a logger that had no handler, the root
  logger carries the FYI file handler, the ALERT file handler and the ALERT console
  handler. A DEBUG record is delivered to the FYI file handler only: it is appended to
  the file in the short format, behind the white circle, and nothing reaches the console.
  A WARNING record that follows is delivered to the ALERT file handler and to the ALERT
  console handler and not to the FYI file handler: it is appended to the file in the
  long format, behind the orange square, and written to the console in the long format,
  which starts with the message and has no glyph in it.
\<close>

theorem setup_routes_debug_and_warning:
  assumes "Log_setup (Some p) w0 = (None, w)" and "root_handlers w0 = []"
  shows "root_handlers w = [handler_file_fyi p, handler_file_alert p, handler_stderr_alert]
    \<and> delivers (handler_file_fyi p) (makeRecord cs DEBUG m)
    \<and> \<not> delivers (handler_file_alert p) (makeRecord cs DEBUG m)
    \<and> \<not> delivers handler_stderr_alert (makeRecord cs DEBUG m)
    \<and> \<not> delivers (handler_file_fyi p) (makeRecord cs' WARNING m')
    \<and> delivers (handler_file_alert p) (makeRecord cs' WARNING m')
    \<and> delivers handler_stderr_alert (makeRecord cs' WARNING m')
    \<and> debug lg cs m w
        = w\<lparr>fs := (fs w)(p \<mapsto> File (file_content w p
                @ fmt_file_fyi glyph_white_circle (makeRecord cs DEBUG m) @ NL))\<rparr>
    \<and> warning lg cs' m' (debug lg cs m w)
        = w\<lparr>fs := (fs w)(p \<mapsto> File (file_content w p
                @ fmt_file_fyi glyph_white_circle (makeRecord cs DEBUG m) @ NL
                @ fmt_file_alert glyph_orange_square (makeRecord cs' WARNING m') @ NL)),
             stderr := stderr w @ fmt_stderr_alert (makeRecord cs' WARNING m') @ NL\<rparr>
    \<and> fmt_file_fyi glyph_white_circle (makeRecord cs DEBUG m)
        = NL @ glyph_white_circle @ '' '' @ m @ '' '' @ NL
          @ cs_asctime cs @ '' - root - DEBUG '' @ NL
    \<and> fmt_file_alert glyph_orange_square (makeRecord cs' WARNING m')
        = NL @ glyph_orange_square @ '' '' @ m' @ '' '' @ NL
          @ cs_asctime cs' @ '' - root - WARNING '' @ NL
          @ cs_threadName cs' @ '' '' @ arrow @ '' '' @ cs_processName cs' @ '' '' @ NL
          @ cs_pathname cs' @ '' '' @ NL
          @ arrow @ '' '' @ cs_module cs' @ '' '' @ arrow @ '' '' @ cs_funcName cs' @ '' @ ''
          @ show_int (cs_lineno cs') @ '' '' @ NL
          @ ''EXCEPTION INFO: None '' @ NL
    \<and> fmt_stderr_alert (makeRecord cs' WARNING m')
        = NL @ m' @ '' '' @ NL
          @ cs_asctime cs' @ '' - root - WARNING '' @ NL
          @ cs_threadName cs' @ '' '' @ arrow @ '' '' @ cs_processName cs' @ '' '' @ NL
          @ cs_pathname cs' @ '' '' @ NL
          @ arrow @ '' '' @ cs_module cs' @ '' '' @ arrow @ '' '' @ cs_funcName cs' @ '' @ ''
          @ show_int (cs_lineno cs') @ '' '' @ NL
          @ ''EXCEPTION INFO: None '' @ NL"
proof -
  note s = Log_setup_file [OF assms(1)]
  from s obtain c where c: "fs w p = Some (File c)" by blast
  have lv: "root_level w = DEBUG" and
    hs: "root_handlers w = [handler_file_fyi p, handler_file_alert p, handler_stderr_alert]"
    using s assms(2) by simp_all
  have fc: "file_content w p = c" using c by (simp add: file_content_def)
  have d: "debug lg cs m w
        = w\<lparr>fs := (fs w)(p \<mapsto> File (c
                @ fmt_file_fyi glyph_white_circle (makeRecord cs DEBUG m) @ NL))\<rparr>"
    using logger_log_fyi [OF lv hs c, of DEBUG cs m]
    by (simp add: debug_def getLevelName_levels cntxt_flag_of_levels) (simp add: DEBUG_def)
  let ?w1 = "debug lg cs m w"
  have lv1: "root_level ?w1 = DEBUG" and
    hs1: "root_handlers ?w1 = [handler_file_fyi p, handler_file_alert p, handler_stderr_alert]"
    and c1: "fs ?w1 p = Some (File (c @ fmt_file_fyi glyph_white_circle (makeRecord cs DEBUG m) @ NL))"
    using d lv hs by simp_all
  have wn: "warning lg cs' m' ?w1
        = ?w1\<lparr>fs := (fs ?w1)(p \<mapsto> File ((c @ fmt_file_fyi glyph_white_circle (makeRecord cs DEBUG m) @ NL)
                @ fmt_file_alert glyph_orange_square (makeRecord cs' WARNING m') @ NL)),
             stderr := stderr ?w1 @ fmt_stderr_alert (makeRecord cs' WARNING m') @ NL\<rparr>"
    using logger_log_alert [OF lv1 hs1 c1, of WARNING cs' m']
    by (simp add: warning_def getLevelName_levels cntxt_flag_of_levels) (simp add: WARNING_def)
  have wn': "warning lg cs' m' ?w1
        = w\<lparr>fs := (fs w)(p \<mapsto> File (c
                @ fmt_file_fyi glyph_white_circle (makeRecord cs DEBUG m) @ NL
                @ fmt_file_alert glyph_orange_square (makeRecord cs' WARNING m') @ NL)),
             stderr := stderr w @ fmt_stderr_alert (makeRecord cs' WARNING m') @ NL\<rparr>"
    by (subst wn) (simp add: d)
  have r1: "fmt_file_fyi glyph_white_circle (makeRecord cs DEBUG m)
        = NL @ glyph_white_circle @ '' '' @ m @ '' '' @ NL
          @ cs_asctime cs @ '' - root - DEBUG '' @ NL"
    by (simp add: fmt_file_fyi_def makeRecord_def getLevelName_levels)
  show ?thesis
    apply (intro conjI)
    subgoal by (rule hs)
    subgoal by (simp add: delivers_session DEBUG_def)
    subgoal by (simp add: delivers_session DEBUG_def)
    subgoal by (simp add: delivers_session DEBUG_def)
    subgoal by (simp add: delivers_session WARNING_def)
    subgoal by (simp add: delivers_session WARNING_def)
    subgoal by (simp add: delivers_session WARNING_def)
    subgoal using d fc by simp
    subgoal using wn' fc by simp
    subgoal by (rule r1)
    subgoal by (simp add: fmt_file_alert_def makeRecord_def getLevelName_levels)
    subgoal by (simp add: fmt_stderr_alert_def makeRecord_def getLevelName_levels)
    done
qed


subsection \<open>The log file path\<close>







lemma get_filepathname_join:
  assumes "sep \<notin> set (module_basename ei)"
  shows "get_filepathname ei
         = (if dirpath ei = [] \<or> last (dirpath ei) = sep then dirpath ei @ basename_ext ei
            else dirpath ei @ [sep] @ basename_ext ei)"
  unfolding get_filepathname_def
  by (rule os_path_join_name) (rule sep_notin_basename_ext [OF assms])

lemma get_filepathname_initial:
  assumes "sep \<notin> set (module_basename ei)" "final (directories ei) = None"
  shows "get_filepathname ei
         = os_path_join (initial (directories ei)) ''logs'' @ [sep] @ basename_ext ei"
  using get_filepathname_join [OF assms(1)] assms(2) logs_dir_last [of "initial (directories ei)"]
  by (simp add: dirpath_def)



subsection \<open>Termination\<close>

lemma terminate_begin_fst:
  "fst (terminate_begin lg now d) = get_filepathname (exec_info lg)"
  by (simp add: terminate_begin_def Let_def get_filepathname_def dirpath_def basename_ext_def
      split: option.splits)

lemma terminate_begin_exec_info:
  "exec_info (snd (terminate_begin lg now d))
   = (exec_info lg)\<lparr>timestamps := (timestamps (exec_info lg))\<lparr>end_time := Some now\<rparr>,
                     directories := (directories (exec_info lg))\<lparr>final := d\<rparr>\<rparr>"
  by (simp add: terminate_begin_def Let_def)

lemma terminate_begin_path_after:
  "get_filepathname (exec_info (snd (terminate_begin lg now d)))
   = os_path_join
       (case d of None \<Rightarrow> os_path_join (initial (directories (exec_info lg))) ''logs''
        | Some x \<Rightarrow> x)
       (basename_ext (exec_info lg))"
  by (simp add: terminate_begin_exec_info get_filepathname_def dirpath_def basename_ext_def
      split: option.splits)

lemma get_footer_text:
  "get_footer (snd (terminate_begin lg now d))
   = Inr (''========== ENDING =========='' @ NL
     @ (if d = None then ''*** Final log directory not specified. ***'' @ NL
        else ''Log copied to specified directory.'' @ NL)
     @ NL
     @ ''LOG: '' @ get_filepathname (exec_info (snd (terminate_begin lg now d))) @ NL
     @ NL
     @ ''  END: '' @ isoformat now @ NL
     @ ''- START: '' @ isoformat (start (timestamps (exec_info lg))) @ NL
     @ ''= ELAPSED: ''
     @ format_elapsed (elapsed_parts (total_seconds
         (datetime_sub now (start (timestamps (exec_info lg)))))))"
  by (simp add: get_footer_def Let_def terminate_begin_exec_info get_elapsed_def)

lemma get_footer_after_begin:
  "get_footer (snd (terminate_begin lg now d)) = Inr (footer_of lg now d)"
  by (simp add: footer_of_def get_footer_text)

lemma footer_of_text:
  "footer_of lg now d
   = ''========== ENDING =========='' @ NL
     @ (if d = None then ''*** Final log directory not specified. ***'' @ NL
        else ''Log copied to specified directory.'' @ NL)
     @ NL
     @ ''LOG: '' @ get_filepathname (exec_info (snd (terminate_begin lg now d))) @ NL
     @ NL
     @ ''  END: '' @ isoformat now @ NL
     @ ''- START: '' @ isoformat (start (timestamps (exec_info lg))) @ NL
     @ ''= ELAPSED: ''
     @ format_elapsed (elapsed_parts (total_seconds
         (datetime_sub now (start (timestamps (exec_info lg))))))"
  by (simp add: footer_of_def get_footer_text)

lemma terminate_unfold:
  "terminate lg now d cs w =
     (let lg2 = snd (terminate_begin lg now d);
          w1 = info lg2 cs (footer_of lg now d) w
      in case d of
           None \<Rightarrow> (None, lg2, w1)
         | Some x \<Rightarrow>
             (case shutil_copy (get_filepathname (exec_info lg)) x (fs w1) of
                Inl e \<Rightarrow> (Some e, lg2, w1)
              | Inr f \<Rightarrow> (None, lg2, w1\<lparr>fs := f\<rparr>)))"
proof -
  obtain a b where ab: "terminate_begin lg now d = (a, b)" by (cases "terminate_begin lg now d")
  have a: "a = get_filepathname (exec_info lg)" using terminate_begin_fst [of lg now d] ab by simp
  have f: "get_footer b = Inr (footer_of lg now d)"
    using get_footer_after_begin [of lg now d] ab by simp
  show ?thesis by (simp add: terminate_def ab a f Let_def)
qed

lemma join_differs:
  assumes "sep \<notin> set n" "l \<noteq> []" "last l \<noteq> sep"
  shows "os_path_join d n \<noteq> l @ [sep] @ n \<longleftrightarrow> d \<noteq> l \<and> d \<noteq> l @ [sep]"
proof (cases "d = [] \<or> last d = sep")
  case True
  have "d @ n = (l @ [sep]) @ n \<longleftrightarrow> d = l @ [sep]" by (rule append_same_eq)
  moreover have "d \<noteq> l" using True assms by auto
  ultimately show ?thesis using True by (simp add: os_path_join_name [OF assms(1)])
next
  case False
  have "(d @ [sep]) @ n = (l @ [sep]) @ n \<longleftrightarrow> d @ [sep] = l @ [sep]" by (rule append_same_eq)
  moreover have "d \<noteq> l @ [sep]" using False by auto
  ultimately show ?thesis using False by (simp add: os_path_join_name [OF assms(1)])
qed

text \<open>
  Claim C10. In \<open>terminate\<close> with a final directory \<open>d\<close>, on a session that has none
  stored yet, the path handed to the copy is read before \<open>d\<close> is stored: it is the file
  under the \<open>logs\<close> directory of the source directory. The footer is rendered after
  \<open>d\<close> is stored, so its \<open>LOG:\<close> line shows the file name under \<open>d\<close>. The two paths
  differ exactly when \<open>d\<close> is not the original \<open>logs\<close> directory, written with or
  without a trailing separator.
\<close>

theorem terminate_copy_source_and_footer_path:
  assumes "final (directories (exec_info lg)) = None"
    and "sep \<notin> set (module_basename (exec_info lg))"
  shows "fst (terminate_begin lg now (Some d))
           = os_path_join (initial (directories (exec_info lg))) ''logs'' @ ''/''
             @ basename_ext (exec_info lg)
    \<and> final (directories (exec_info (snd (terminate_begin lg now (Some d))))) = Some d
    \<and> get_filepathname (exec_info (snd (terminate_begin lg now (Some d))))
        = os_path_join d (basename_ext (exec_info lg))
    \<and> (\<exists>pre post. get_footer (snd (terminate_begin lg now (Some d)))
          = Inr (pre @ ''LOG: '' @ os_path_join d (basename_ext (exec_info lg)) @ NL @ post))
    \<and> (\<exists>footer. get_footer (snd (terminate_begin lg now (Some d))) = Inr footer
          \<and> terminate lg now (Some d) cs w
            = (let lg2 = snd (terminate_begin lg now (Some d));
                   w1 = info lg2 cs footer w
               in case shutil_copy
                         (os_path_join (initial (directories (exec_info lg))) ''logs'' @ ''/''
                          @ basename_ext (exec_info lg)) d (fs w1) of
                    Inl e \<Rightarrow> (Some e, lg2, w1)
                  | Inr f \<Rightarrow> (None, lg2, w1\<lparr>fs := f\<rparr>)))
    \<and> (os_path_join d (basename_ext (exec_info lg))
          \<noteq> os_path_join (initial (directories (exec_info lg))) ''logs'' @ ''/''
            @ basename_ext (exec_info lg)
        \<longleftrightarrow> d \<noteq> os_path_join (initial (directories (exec_info lg))) ''logs''
            \<and> d \<noteq> os_path_join (initial (directories (exec_info lg))) ''logs'' @ ''/'')"
proof -
  let ?logs = "os_path_join (initial (directories (exec_info lg))) ''logs''"
  let ?n = "basename_ext (exec_info lg)"
  have p: "get_filepathname (exec_info lg) = ?logs @ [sep] @ ?n"
    by (rule get_filepathname_initial [OF assms(2,1)])
  have sl: "''/'' = [sep]" by (simp add: sep_def)
  have after: "get_filepathname (exec_info (snd (terminate_begin lg now (Some d))))
        = os_path_join d ?n"
    by (simp add: terminate_begin_path_after)
  have c1: "fst (terminate_begin lg now (Some d)) = ?logs @ ''/'' @ ?n"
    using p by (simp add: terminate_begin_fst sl)
  have c2: "final (directories (exec_info (snd (terminate_begin lg now (Some d))))) = Some d"
    by (simp add: terminate_begin_exec_info)
  have c4: "\<exists>pre post. get_footer (snd (terminate_begin lg now (Some d)))
          = Inr (pre @ ''LOG: '' @ os_path_join d ?n @ NL @ post)"
    unfolding get_footer_after_begin footer_of_text after
    by (intro exI [of _ "''========== ENDING =========='' @ NL
          @ ''Log copied to specified directory.'' @ NL @ NL"] exI) simp
  have c5: "\<exists>footer. get_footer (snd (terminate_begin lg now (Some d))) = Inr footer
          \<and> terminate lg now (Some d) cs w
            = (let lg2 = snd (terminate_begin lg now (Some d));
                   w1 = info lg2 cs footer w
               in case shutil_copy (?logs @ ''/'' @ ?n) d (fs w1) of
                    Inl e \<Rightarrow> (Some e, lg2, w1)
                  | Inr f \<Rightarrow> (None, lg2, w1\<lparr>fs := f\<rparr>))"
    by (rule exI [of _ "footer_of lg now (Some d)"])
       (simp add: get_footer_after_begin terminate_unfold [of lg now "Some d"] p sl Let_def)
  have c6: "os_path_join d ?n \<noteq> ?logs @ ''/'' @ ?n \<longleftrightarrow> d \<noteq> ?logs \<and> d \<noteq> ?logs @ ''/''"
    using join_differs [OF sep_notin_basename_ext [OF assms(2)], of ?logs d]
      logs_dir_last [of "initial (directories (exec_info lg))"]
    by (simp add: sl)
  show ?thesis using c1 c2 after c4 c5 c6 by blast
qed

lemma lookup_plain: "p \<noteq> [] \<Longrightarrow> last p \<noteq> sep \<Longrightarrow> lookup f p = f p"
  by (simp add: lookup_def norm_path_id split: option.splits node.splits)

lemma get_filepathname_last:
  "get_filepathname ei \<noteq> [] \<and> last (get_filepathname ei) \<noteq> sep"
  using os_path_join_last [of "basename_ext ei" "dirpath ei"] basename_ext_last [of ei]
  by (simp add: get_filepathname_def)

lemma session_file:
  assumes "session_active lg w"
  shows "fs w (get_filepathname (exec_info lg))
         = Some (File (file_content w (get_filepathname (exec_info lg))))"
  using assms by (auto simp: session_active_def Let_def file_content_def split: option.splits node.splits)

lemma info_session:
  assumes "session_active lg w"
  shows "info lg' cs m w
         = w\<lparr>fs := (fs w)(get_filepathname (exec_info lg) \<mapsto>
                  File (file_content w (get_filepathname (exec_info lg))
                        @ fmt_file_fyi glyph_black_square (makeRecord cs INFO m) @ NL))\<rparr>"
proof -
  have lv: "root_level w = DEBUG" and
    hs: "root_handlers w = [handler_file_fyi (get_filepathname (exec_info lg)),
           handler_file_alert (get_filepathname (exec_info lg)), handler_stderr_alert]"
    using assms by (simp_all add: session_active_def Let_def)
  show ?thesis
    using logger_log_fyi [OF lv hs session_file [OF assms], of INFO cs m]
    by (simp add: info_def getLevelName_levels cntxt_flag_of_levels) (simp add: INFO_def)
qed



text \<open>
  Claim C8. \<open>terminate\<close> without a final directory, on a running session: the footer
  starts with the ENDING line and the note that no final directory was specified; the
  call ends without an exception; the only change to the world is that the footer record
  is appended to the log file at its original path, so no path is created and nothing is
  copied; and the path of the log file stays what it was.
\<close>

theorem terminate_without_final_directory:
  assumes "session_active lg w"
  shows "get_footer (snd (terminate_begin lg now None)) = Inr (footer_of lg now None)
    \<and> prefix (''========== ENDING =========='' @ NL
              @ ''*** Final log directory not specified. ***'' @ NL) (footer_of lg now None)
    \<and> terminate lg now None cs w
        = (None, snd (terminate_begin lg now None),
           w\<lparr>fs := (fs w)(get_filepathname (exec_info lg) \<mapsto>
                  File (file_content w (get_filepathname (exec_info lg))
                        @ fmt_file_fyi glyph_black_square
                            (makeRecord cs INFO (footer_of lg now None)) @ NL))\<rparr>)
    \<and> dom (fs (snd (snd (terminate lg now None cs w)))) = dom (fs w)
    \<and> get_filepathname (exec_info (snd (terminate_begin lg now None)))
        = get_filepathname (exec_info lg)"
proof -
  let ?p = "get_filepathname (exec_info lg)"
  have fin: "final (directories (exec_info lg)) = None"
    using assms by (simp add: session_active_def Let_def)
  have t: "terminate lg now None cs w
        = (None, snd (terminate_begin lg now None),
           w\<lparr>fs := (fs w)(?p \<mapsto>
                  File (file_content w ?p
                        @ fmt_file_fyi glyph_black_square
                            (makeRecord cs INFO (footer_of lg now None)) @ NL))\<rparr>)"
    by (simp add: terminate_unfold [of lg now None] Let_def info_session [OF assms])
  have d: "dom (fs (snd (snd (terminate lg now None cs w)))) = dom (fs w)"
    using session_file [OF assms] by (auto simp: t)
  have same: "get_filepathname (exec_info (snd (terminate_begin lg now None))) = ?p"
    unfolding terminate_begin_path_after using fin by (simp add: get_filepathname_def dirpath_def)
  have pre: "prefix (''========== ENDING =========='' @ NL
              @ ''*** Final log directory not specified. ***'' @ NL) (footer_of lg now None)"
    by (simp add: footer_of_text)
  show ?thesis using get_footer_after_begin [of lg now None] pre t d same by blast
qed



subsection \<open>Construction\<close>

lemma new_Log_facts:
  "final (directories (exec_info (new_Log pf now path))) = None"
  "sep \<notin> set (module_basename (exec_info (new_Log pf now path)))"
  using sep_notin_module_basename [of pf now path]
  by (simp_all add: new_Log_def) (simp add: set_info_def)

lemma logs_dirpathname_last:
  "logs_dirpathname lg \<noteq> [] \<and> last (logs_dirpathname lg) \<noteq> sep"
  by (simp add: logs_dirpathname_def logs_dir_last)

lemma new_Log_path:
  "get_filepathname (exec_info (new_Log pf now path))
   = logs_dirpathname (new_Log pf now path) @ [sep] @ basename_ext (exec_info (new_Log pf now path))"
  using get_filepathname_initial [OF new_Log_facts(2) new_Log_facts(1), of pf now path]
  by (simp add: logs_dirpathname_def)

lemma new_Log_parent:
  "parent_dir f (get_filepathname (exec_info (new_Log pf now path)))
   = lookup f (logs_dirpathname (new_Log pf now path))"
proof -
  let ?lg = "new_Log pf now path"
  have n: "sep \<notin> set (basename_ext (exec_info ?lg))"
    by (rule sep_notin_basename_ext [OF new_Log_facts(2)])
  have d: "os_path_dirname (get_filepathname (exec_info ?lg)) = logs_dirpathname ?lg"
    unfolding new_Log_path
    using os_path_dirname_join [OF n, of "logs_dirpathname ?lg"] logs_dirpathname_last [of ?lg]
    by simp
  show ?thesis
    using d logs_dirpathname_last [of ?lg] get_filepathname_last [of "exec_info ?lg"]
    by (simp add: parent_dir_def norm_path_id Let_def)
qed

lemma initialize_ok:
  assumes "root_handlers w = []"
    and "lookup (fs w) (logs_dirpathname (new_Log pf now path)) = Some (Dir True)"
    and "case fs w (get_filepathname (exec_info (new_Log pf now path))) of
           Some (Dir b) \<Rightarrow> False | _ \<Rightarrow> True"
  shows "initialize pf (new_Log pf now path) cs w
         = (None,
            w\<lparr>root_level := DEBUG,
              root_handlers :=
                [handler_file_fyi (get_filepathname (exec_info (new_Log pf now path))),
                 handler_file_alert (get_filepathname (exec_info (new_Log pf now path))),
                 handler_stderr_alert],
              fs := (fs w)(get_filepathname (exec_info (new_Log pf now path)) \<mapsto>
                File (file_content w (get_filepathname (exec_info (new_Log pf now path)))
                      @ fmt_file_fyi glyph_black_square
                          (makeRecord cs INFO (get_header pf (new_Log pf now path))) @ NL))\<rparr>)"
proof -
  let ?lg = "new_Log pf now path"
  let ?p = "get_filepathname (exec_info ?lg)"
  let ?f1 = "(fs w)(?p \<mapsto> File (file_content w ?p))"
  have o: "open_for_write False ?p (fs w) = Inr ?f1"
    using assms(2,3) get_filepathname_last [of "exec_info ?lg"] new_Log_parent [of "fs w" pf now path]
    by (auto simp: open_for_write_def file_content_def split: option.splits node.splits)
  have o2: "open_for_write False ?p ?f1 = Inr ?f1"
    using open_for_write_again [of ?f1 ?p "file_content w ?p"] get_filepathname_last [of "exec_info ?lg"]
    by simp
  let ?w2 = "w\<lparr>root_level := DEBUG,
              root_handlers := [handler_file_fyi ?p, handler_file_alert ?p, handler_stderr_alert],
              fs := ?f1\<rparr>"
  have s: "Log_setup (Some ?p) w = (None, ?w2)"
    using o o2 assms(1) by (simp add: Log_setup_def Let_def addHandler_def)
  have i: "info ?lg cs (get_header pf ?lg) ?w2
        = ?w2\<lparr>fs := (fs ?w2)(?p \<mapsto> File (file_content w ?p
            @ fmt_file_fyi glyph_black_square (makeRecord cs INFO (get_header pf ?lg)) @ NL))\<rparr>"
    using logger_log_fyi [of ?w2 ?p "file_content w ?p" INFO cs "get_header pf ?lg"]
    by (simp add: info_def getLevelName_levels cntxt_flag_of_levels) (simp add: INFO_def)
  show ?thesis by (simp add: initialize_def s i)
qed

lemma mkdir_logs:
  assumes "\<not> os_path_exists f (logs_dirpathname lg)"
  shows "os_mkdir (logs_dirpathname lg) f
         = (case parent_dir f (logs_dirpathname lg) of
              None \<Rightarrow> Inl FileNotFoundError
            | Some (File c) \<Rightarrow> Inl NotADirectoryError
            | Some (Dir b) \<Rightarrow>
                if b then Inr (f(logs_dirpathname lg \<mapsto> Dir True)) else Inl PermissionError)"
proof -
  note l = logs_dirpathname_last [of lg]
  have "f (logs_dirpathname lg) = None"
    using assms l by (simp add: os_path_exists_def lookup_plain)
  then show ?thesis
    using l by (auto simp: os_mkdir_def norm_path_id split: option.splits node.splits)
qed

lemma logs_ne_path:
  "get_filepathname (exec_info (new_Log pf now path)) \<noteq> logs_dirpathname (new_Log pf now path)"
  by (simp add: new_Log_path)

lemma session_activeD:
  assumes "session_active lg w"
  shows "root_level w = DEBUG"
    and "root_handlers w = [handler_file_fyi (get_filepathname (exec_info lg)),
           handler_file_alert (get_filepathname (exec_info lg)), handler_stderr_alert]"
    and "final (directories (exec_info lg)) = None"
    and "sep \<notin> set (module_basename (exec_info lg))"
  using assms unfolding session_active_def Let_def by blast+

lemma session_activeI:
  assumes "root_level w = DEBUG"
    and "root_handlers w = [handler_file_fyi (get_filepathname (exec_info lg)),
           handler_file_alert (get_filepathname (exec_info lg)), handler_stderr_alert]"
    and "fs w (get_filepathname (exec_info lg)) = Some (File c)"
    and "final (directories (exec_info lg)) = None"
    and "sep \<notin> set (module_basename (exec_info lg))"
  shows "session_active lg w"
  unfolding session_active_def Let_def using assms by simp

lemma logger_log_session:
  assumes "session_active lg w" "10 \<le> l"
  shows "session_active lg (logger_log l cs m w)"
proof -
  let ?p = "get_filepathname (exec_info lg)"
  note d = session_activeD [OF assms(1)]
  note f = session_file [OF assms(1)]
  show ?thesis
  proof (cases "l < 30")
    case True
    note e = logger_log_fyi [OF d(1) d(2) f assms(2) True, of cs m]
    show ?thesis
      by (rule session_activeI [where c = "file_content w ?p
            @ fmt_file_fyi (cntxt_flag_of (getLevelName l)) (makeRecord cs l m) @ NL"])
         (simp_all add: e d)
  next
    case False
    then have l30: "30 \<le> l" by simp
    note e = logger_log_alert [OF d(1) d(2) f l30, of cs m]
    show ?thesis
      by (rule session_activeI [where c = "file_content w ?p
            @ fmt_file_alert (cntxt_flag_of (getLevelName l)) (makeRecord cs l m) @ NL"])
         (simp_all add: e d)
  qed
qed

lemma initialize_session:
  assumes "initialize pf (new_Log pf now path) cs w1 = (None, w2)" and "root_handlers w1 = []"
  shows "session_active (new_Log pf now path) w2"
proof -
  let ?lg = "new_Log pf now path"
  let ?p = "get_filepathname (exec_info ?lg)"
  obtain e w3 where s0: "Log_setup (Some ?p) w1 = (e, w3)"
    by (cases "Log_setup (Some ?p) w1")
  have en: "e = None"
    using assms(1) s0 by (cases e) (simp_all add: initialize_def)
  have s: "Log_setup (Some ?p) w1 = (None, w3)" using s0 en by simp
  have i: "w2 = info ?lg cs (get_header pf ?lg) w3"
    using assms(1) s by (simp add: initialize_def)
  note f = Log_setup_file [OF s]
  from f obtain c where c: "fs w3 ?p = Some (File c)" by blast
  have hs: "root_handlers w3 = [handler_file_fyi ?p, handler_file_alert ?p, handler_stderr_alert]"
    using f assms(2) by simp
  have lv: "root_level w3 = DEBUG" using f by simp
  have "session_active ?lg w3"
    by (rule session_activeI [OF lv hs c new_Log_facts])
  then show ?thesis
    unfolding i info_def by (rule logger_log_session) (simp add: INFO_def)
qed

lemma post_init_session:
  assumes "root_handlers w = []" "post_init pf now path cs_header cs_notice w = (Inr lg, w')"
  shows "session_active lg w'"
proof -
  let ?lg = "new_Log pf now path"
  let ?logs = "logs_dirpathname ?lg"
  show ?thesis
  proof (cases "os_path_exists (fs w) ?logs")
    case True
    obtain e w1 where i: "initialize pf ?lg cs_header w = (e, w1)"
      by (cases "initialize pf ?lg cs_header w")
    have p: "post_init pf now path cs_header cs_notice w
             = (case e of Some x \<Rightarrow> (Inl x, w1) | None \<Rightarrow> (Inr ?lg, w1))"
      using True i by (simp add: post_init_def Let_def split: option.splits)
    have "e = None \<and> lg = ?lg \<and> w' = w1"
      using p assms(2) by (cases e) simp_all
    then show ?thesis using initialize_session [of pf now path cs_header w w1] i assms(1) by simp
  next
    case False
    obtain r where m: "os_mkdir ?logs (fs w) = r" by simp
    show ?thesis
    proof (cases r)
      case (Inl x)
      then have "post_init pf now path cs_header cs_notice w = (Inl x, w)"
        using False m by (simp add: post_init_def Let_def)
      then show ?thesis using assms(2) by simp
    next
      case (Inr f1)
      obtain e w1 where i: "initialize pf ?lg cs_header (w\<lparr>fs := f1\<rparr>) = (e, w1)"
        by (cases "initialize pf ?lg cs_header (w\<lparr>fs := f1\<rparr>)")
      have p: "post_init pf now path cs_header cs_notice w
             = (case e of Some x \<Rightarrow> (Inl x, w1)
                | None \<Rightarrow> (Inr ?lg, warning ?lg cs_notice
                                      (get (logs_created_message ?lg ?logs)) w1))"
        using False m Inr i by (simp add: post_init_def Let_def split: option.splits)
      have r: "e = None \<and> lg = ?lg
               \<and> w' = warning ?lg cs_notice (get (logs_created_message ?lg ?logs)) w1"
        using p assms(2) by (cases e) simp_all
      have "session_active ?lg w1"
        using initialize_session [of pf now path cs_header "w\<lparr>fs := f1\<rparr>" w1] i r assms(1)
        by simp
      then have "session_active ?lg (logger_log WARNING cs_notice
                   (get (logs_created_message ?lg ?logs)) w1)"
        by (rule logger_log_session) (simp add: WARNING_def)
      then show ?thesis using r by (simp add: warning_def)
    qed
  qed
qed

text \<open>
  Claim C5, amended. In a process whose root logger has no handler yet:
  when the \<open>logs\<close> directory is missing and its parent is a directory in which entries
  may be created, construction succeeds, creates that one directory, and logs two
  records: the header at INFO, which is the first record in the log file, and then one
  WARNING notice, which goes to the log file and the console; when the \<open>logs\<close>
  directory is already there, construction logs the header only and writes nothing to
  the console; when the \<open>logs\<close> directory is missing and its parent is missing as well,
  construction ends with \<open>FileNotFoundError\<close> and changes nothing: parents are not
  created.
\<close>

theorem post_init_logs_directory:
  assumes "root_handlers w = []"
  shows "(\<not> os_path_exists (fs w) (logs_dirpathname (new_Log pf now path))
          \<and> parent_dir (fs w) (logs_dirpathname (new_Log pf now path)) = Some (Dir True)
          \<and> fs w (get_filepathname (exec_info (new_Log pf now path))) = None \<longrightarrow>
        post_init pf now path cs_header cs_notice w
        = (Inr (new_Log pf now path),
           w\<lparr>root_level := DEBUG,
             root_handlers :=
               [handler_file_fyi (get_filepathname (exec_info (new_Log pf now path))),
                handler_file_alert (get_filepathname (exec_info (new_Log pf now path))),
                handler_stderr_alert],
             fs := (fs w)
               (logs_dirpathname (new_Log pf now path) \<mapsto> Dir True,
                get_filepathname (exec_info (new_Log pf now path)) \<mapsto>
                  File (fmt_file_fyi glyph_black_square
                          (makeRecord cs_header INFO (get_header pf (new_Log pf now path))) @ NL
                        @ fmt_file_alert glyph_orange_square
                            (makeRecord cs_notice WARNING
                               (get (logs_created_message (new_Log pf now path)
                                       (logs_dirpathname (new_Log pf now path))))) @ NL)),
             stderr := stderr w
               @ fmt_stderr_alert
                   (makeRecord cs_notice WARNING
                      (get (logs_created_message (new_Log pf now path)
                              (logs_dirpathname (new_Log pf now path))))) @ NL\<rparr>))
    \<and> (lookup (fs w) (logs_dirpathname (new_Log pf now path)) = Some (Dir True)
          \<and> (case fs w (get_filepathname (exec_info (new_Log pf now path))) of
                Some (Dir b) \<Rightarrow> False | _ \<Rightarrow> True) \<longrightarrow>
        post_init pf now path cs_header cs_notice w
        = (Inr (new_Log pf now path),
           w\<lparr>root_level := DEBUG,
             root_handlers :=
               [handler_file_fyi (get_filepathname (exec_info (new_Log pf now path))),
                handler_file_alert (get_filepathname (exec_info (new_Log pf now path))),
                handler_stderr_alert],
             fs := (fs w)
               (get_filepathname (exec_info (new_Log pf now path)) \<mapsto>
                  File (file_content w (get_filepathname (exec_info (new_Log pf now path)))
                        @ fmt_file_fyi glyph_black_square
                            (makeRecord cs_header INFO (get_header pf (new_Log pf now path)))
                        @ NL))\<rparr>))
    \<and> (\<not> os_path_exists (fs w) (logs_dirpathname (new_Log pf now path))
          \<and> parent_dir (fs w) (logs_dirpathname (new_Log pf now path)) = None \<longrightarrow>
        post_init pf now path cs_header cs_notice w = (Inl FileNotFoundError, w))"
proof (intro conjI impI)
  let ?lg = "new_Log pf now path"
  let ?logs = "logs_dirpathname ?lg"
  let ?p = "get_filepathname (exec_info ?lg)"
  let ?hdr = "fmt_file_fyi glyph_black_square (makeRecord cs_header INFO (get_header pf ?lg)) @ NL"
  let ?msg = "get (logs_created_message ?lg ?logs)"
  {
    assume a: "\<not> os_path_exists (fs w) ?logs \<and> parent_dir (fs w) ?logs = Some (Dir True)
          \<and> fs w ?p = None"
    let ?f1 = "(fs w)(?logs \<mapsto> Dir True)"
    let ?w0 = "w\<lparr>fs := ?f1\<rparr>"
    let ?w1 = "w\<lparr>root_level := DEBUG,
              root_handlers := [handler_file_fyi ?p, handler_file_alert ?p, handler_stderr_alert],
              fs := (fs w)(?logs \<mapsto> Dir True, ?p \<mapsto> File ?hdr)\<rparr>"
    let ?w2 = "w\<lparr>root_level := DEBUG,
             root_handlers := [handler_file_fyi ?p, handler_file_alert ?p, handler_stderr_alert],
             fs := (fs w)(?logs \<mapsto> Dir True,
                ?p \<mapsto> File (fmt_file_fyi glyph_black_square
                      (makeRecord cs_header INFO (get_header pf ?lg)) @ NL
                  @ fmt_file_alert glyph_orange_square (makeRecord cs_notice WARNING ?msg) @ NL)),
             stderr := stderr w @ fmt_stderr_alert (makeRecord cs_notice WARNING ?msg) @ NL\<rparr>"
    have ne: "os_path_exists (fs w) ?logs = False" using a by simp
    have m: "os_mkdir ?logs (fs w) = Inr ?f1" using a by (simp add: mkdir_logs)
    have lk: "lookup (fs ?w0) ?logs = Some (Dir True)"
      using logs_dirpathname_last [of ?lg] by (simp add: lookup_plain)
    have fp: "fs ?w0 ?p = None" using a logs_ne_path [of pf now path] by simp
    have h0: "root_handlers ?w0 = []" using assms by simp
    have c0: "case fs ?w0 ?p of Some (Dir b) \<Rightarrow> False | _ \<Rightarrow> True" using fp by simp
    have fc: "file_content ?w0 ?p = []" using fp by (simp add: file_content_def)
    have "initialize pf ?lg cs_header ?w0
         = (None, ?w0\<lparr>root_level := DEBUG,
              root_handlers := [handler_file_fyi ?p, handler_file_alert ?p, handler_stderr_alert],
              fs := (fs ?w0)(?p \<mapsto> File (file_content ?w0 ?p @ ?hdr))\<rparr>)"
      by (rule initialize_ok [OF h0 lk c0])
    also have "?w0\<lparr>root_level := DEBUG,
              root_handlers := [handler_file_fyi ?p, handler_file_alert ?p, handler_stderr_alert],
              fs := (fs ?w0)(?p \<mapsto> File (file_content ?w0 ?p @ ?hdr))\<rparr> = ?w1"
      by (simp add: fc)
    finally have i: "initialize pf ?lg cs_header ?w0 = (None, ?w1)" .
    have lv1: "root_level ?w1 = DEBUG"
      and hs1: "root_handlers ?w1 = [handler_file_fyi ?p, handler_file_alert ?p, handler_stderr_alert]"
      and c1: "fs ?w1 ?p = Some (File ?hdr)"
      by simp_all
    have "logger_log WARNING cs_notice ?msg ?w1
        = ?w1\<lparr>fs := (fs ?w1)(?p \<mapsto> File (?hdr
                @ fmt_file_alert (cntxt_flag_of (getLevelName WARNING))
                    (makeRecord cs_notice WARNING ?msg) @ NL)),
             stderr := stderr ?w1 @ fmt_stderr_alert (makeRecord cs_notice WARNING ?msg) @ NL\<rparr>"
      by (rule logger_log_alert [OF lv1 hs1 c1]) (simp add: WARNING_def)
    also have "\<dots> = ?w2"
      by (simp add: getLevelName_levels cntxt_flag_of_levels)
    finally have wn: "warning ?lg cs_notice ?msg ?w1 = ?w2" by (simp only: warning_def)
    have "post_init pf now path cs_header cs_notice w
          = (Inr ?lg, warning ?lg cs_notice ?msg ?w1)"
      by (simp only: post_init_def Let_def ne not_False_eq_True if_True m sum.case i
          prod.case option.case)
    then show "post_init pf now path cs_header cs_notice w = (Inr ?lg, ?w2)"
      by (simp only: wn)
  }
  {
    assume a: "lookup (fs w) ?logs = Some (Dir True)
          \<and> (case fs w ?p of Some (Dir b) \<Rightarrow> False | _ \<Rightarrow> True)"
    have e: "os_path_exists (fs w) ?logs" using a by (simp add: os_path_exists_def)
    show "post_init pf now path cs_header cs_notice w
        = (Inr ?lg,
           w\<lparr>root_level := DEBUG,
             root_handlers := [handler_file_fyi ?p, handler_file_alert ?p, handler_stderr_alert],
             fs := (fs w)(?p \<mapsto> File (file_content w ?p @ ?hdr))\<rparr>)"
      using initialize_ok [of w pf now path cs_header] assms a e
      by (simp add: post_init_def Let_def)
  }
  {
    assume a: "\<not> os_path_exists (fs w) ?logs \<and> parent_dir (fs w) ?logs = None"
    show "post_init pf now path cs_header cs_notice w = (Inl FileNotFoundError, w)"
      using a by (simp add: post_init_def Let_def mkdir_logs)
  }
qed


subsection \<open>The properties at sample inputs\<close>

lemma sample_strftime: "strftime_YmdHMS sample_start = ''20240305070809''"
  by code_simp

lemma sample_paths:
  "os_path_dirname ''/a/b/test.py'' = ''/a/b''"
  "fst (os_path_splitext (os_path_basename ''/a/b/test.py'')) = ''test''"
  by code_simp+

lemma sample_log_fields:
  "module_basename (exec_info sample_log) = ''test''"
  "initial (directories (exec_info sample_log)) = ''/a/b''"
  "final (directories (exec_info sample_log)) = None"
  "start (timestamps (exec_info sample_log)) = sample_start"
  by (simp_all add: sample_log_def new_Log_def set_info_def sample_paths)

lemma sample_log_paths:
  "logs_dirpathname sample_log = ''/a/b/logs''"
  "basename_ext (exec_info sample_log) = ''test_20240305070809.log''"
  "get_filepathname (exec_info sample_log) = sample_logfile"
  by (simp_all add: logs_dirpathname_def basename_ext_def get_filepathname_def dirpath_def
      sample_log_fields sample_strftime os_path_join_def sep_def sample_logfile_def)

lemma sample_session_active: "session_active sample_log sample_session"
  by (rule session_activeI [where c = "''header''"])
     (simp_all add: sample_log_paths sample_log_fields sample_session_def DEBUG_def sep_def)

lemma sample_fs_logs:
  "fs sample_world_logs sample_logfile = None"
  "fs sample_world_logs ''/a/b/logs'' = Some (Dir True)"
  "root_handlers sample_world_logs = []"
  "stderr sample_world_logs = []"
  by (simp_all add: sample_world_logs_def sample_logfile_def)

lemma sample_lookup_logs: "lookup (fs sample_world_logs) ''/a/b/logs'' = Some (Dir True)"
  by (simp add: lookup_plain sep_def sample_fs_logs)

lemma sample_setup:
  "Log_setup (Some sample_logfile) sample_world_logs
   = (None, snd (Log_setup (Some sample_logfile) sample_world_logs))"
proof -
  have p: "parent_dir (fs sample_world_logs) sample_logfile = Some (Dir True)"
    using new_Log_parent [of "fs sample_world_logs" sample_platform sample_start "''/a/b/test.py''"]
    by (simp add: sample_log_paths sample_lookup_logs flip: sample_log_def)
  have l: "sample_logfile \<noteq> [] \<and> last sample_logfile \<noteq> sep"
    by (simp add: sample_logfile_def sep_def)
  have o: "open_for_write False sample_logfile (fs sample_world_logs)
           = Inr ((fs sample_world_logs)(sample_logfile \<mapsto> File []))"
    using p l by (simp add: open_for_write_def sample_fs_logs)
  have o2: "open_for_write False sample_logfile ((fs sample_world_logs)(sample_logfile \<mapsto> File []))
           = Inr ((fs sample_world_logs)(sample_logfile \<mapsto> File []))"
    using l by (simp add: open_for_write_def)
  have "fst (Log_setup (Some sample_logfile) sample_world_logs) = None"
    by (simp add: Log_setup_def Let_def o o2 addHandler_def)
  then show ?thesis by (simp add: prod_eq_iff)
qed

text \<open>Claim C2 at a sample: a DEBUG and a WARNING record after \<open>setup\<close> on an empty file.\<close>

theorem setup_routes_debug_and_warning_witness:
  "fst (Log_setup (Some sample_logfile) sample_world_logs) = None
   \<and> root_handlers sample_world_logs = []
   \<and> stderr (debug sample_log sample_callsite ''D''
               (snd (Log_setup (Some sample_logfile) sample_world_logs))) = []
   \<and> stderr (warning sample_log sample_callsite ''W''
              (debug sample_log sample_callsite ''D''
                 (snd (Log_setup (Some sample_logfile) sample_world_logs))))
       = fmt_stderr_alert (makeRecord sample_callsite WARNING ''W'') @ NL
   \<and> file_content (warning sample_log sample_callsite ''W''
              (debug sample_log sample_callsite ''D''
                 (snd (Log_setup (Some sample_logfile) sample_world_logs)))) sample_logfile
       = fmt_file_fyi glyph_white_circle (makeRecord sample_callsite DEBUG ''D'') @ NL
         @ fmt_file_alert glyph_orange_square (makeRecord sample_callsite WARNING ''W'') @ NL"
proof -
  let ?w = "snd (Log_setup (Some sample_logfile) sample_world_logs)"
  note f = Log_setup_file [OF sample_setup]
  have e: "stderr ?w = []" using f by (simp add: sample_fs_logs)
  have fsw: "fs ?w = (fs sample_world_logs)(sample_logfile \<mapsto> File [])"
    using f by (simp add: sample_fs_logs)
  have fp: "fs ?w sample_logfile = Some (File [])"
    by (subst fsw) simp
  have c: "file_content ?w sample_logfile = []"
    unfolding file_content_def fp by simp
  note t = setup_routes_debug_and_warning [OF sample_setup sample_fs_logs(3),
      of sample_callsite "''D''" sample_callsite "''W''" sample_log]
  have d: "debug sample_log sample_callsite ''D'' ?w
        = ?w\<lparr>fs := (fs ?w)(sample_logfile \<mapsto> File (file_content ?w sample_logfile
                @ fmt_file_fyi glyph_white_circle (makeRecord sample_callsite DEBUG ''D'') @ NL))\<rparr>"
    using t by blast
  have wn: "warning sample_log sample_callsite ''W'' (debug sample_log sample_callsite ''D'' ?w)
        = ?w\<lparr>fs := (fs ?w)(sample_logfile \<mapsto> File (file_content ?w sample_logfile
                @ fmt_file_fyi glyph_white_circle (makeRecord sample_callsite DEBUG ''D'') @ NL
                @ fmt_file_alert glyph_orange_square (makeRecord sample_callsite WARNING ''W'') @ NL)),
             stderr := stderr ?w @ fmt_stderr_alert (makeRecord sample_callsite WARNING ''W'') @ NL\<rparr>"
    using t by blast
  have f1: "fst (Log_setup (Some sample_logfile) sample_world_logs) = None"
    using sample_setup by (metis fst_conv)
  show ?thesis
    apply (intro conjI)
    subgoal by (rule f1)
    subgoal by (rule sample_fs_logs(3))
    subgoal by (simp add: d e)
    subgoal by (simp add: wn e)
    subgoal by (simp add: wn file_content_def fp)
    done
qed


lemma sample_dirnames:
  "os_path_dirname (norm_path ''/a/b/logs'') = ''/a/b''"
  "os_path_dirname (norm_path ''/out/test_20240305070809.log'') = ''/out''"
  "os_path_dirname (norm_path ''/nope/x'') = ''/nope''"
  "os_path_basename sample_logfile = ''test_20240305070809.log''"
  "os_path_join ''/out'' ''test_20240305070809.log'' = ''/out/test_20240305070809.log''"
  by code_simp+

lemma sample_new_Log: "new_Log sample_platform sample_start ''/a/b/test.py'' = sample_log"
  by (simp add: sample_log_def)

lemma parent_of_logs:
  "parent_dir f ''/a/b/logs'' = lookup f ''/a/b''"
  by (simp add: parent_dir_def sample_dirnames)

lemma lookup_ab: "lookup f ''/a/b'' = f ''/a/b''" "lookup f ''/a/b/logs'' = f ''/a/b/logs''"
  by (simp_all add: lookup_plain sep_def)

text \<open>
  Claim C5, as the spec states it: the missing \<open>logs\<close> directory would be created
  together with its missing parents. \<open>os.mkdir\<close> creates one directory: where the source
  directory \<open>/a/b\<close> does not exist, construction ends with \<open>FileNotFoundError\<close> and the
  \<open>logs\<close> directory is not there afterwards.
\<close>

theorem post_init_missing_parent_counterexample:
  "fst (post_init sample_platform sample_start ''/a/b/test.py'' sample_callsite sample_callsite
          sample_world_bare) = Inl FileNotFoundError
   \<and> \<not> os_path_exists
         (fs (snd (post_init sample_platform sample_start ''/a/b/test.py'' sample_callsite
                     sample_callsite sample_world_bare)))
         (logs_dirpathname sample_log)"
proof -
  have ne: "\<not> os_path_exists (fs sample_world_bare) (logs_dirpathname sample_log)"
    by (simp add: os_path_exists_def sample_log_paths lookup_ab sample_world_bare_def)
  have pd: "parent_dir (fs sample_world_bare) (logs_dirpathname sample_log) = None"
    by (simp add: sample_log_paths parent_of_logs lookup_ab sample_world_bare_def)
  have "post_init sample_platform sample_start ''/a/b/test.py'' sample_callsite sample_callsite
          sample_world_bare = (Inl FileNotFoundError, sample_world_bare)"
    using ne pd by (simp add: post_init_def Let_def sample_new_Log mkdir_logs)
  then show ?thesis using ne by simp
qed

text \<open>
  Claim C5, amended, at three sample worlds: the source directory without \<open>logs\<close>, with
  \<open>logs\<close>, and no source directory.
\<close>

theorem post_init_logs_directory_witness:
  "root_handlers sample_world = []
   \<and> fst (post_init sample_platform sample_start ''/a/b/test.py'' sample_callsite sample_callsite
          sample_world) = Inr sample_log
   \<and> fs (snd (post_init sample_platform sample_start ''/a/b/test.py'' sample_callsite
                sample_callsite sample_world)) ''/a/b/logs'' = Some (Dir True)
   \<and> stderr (snd (post_init sample_platform sample_start ''/a/b/test.py'' sample_callsite
                sample_callsite sample_world))
       = fmt_stderr_alert (makeRecord sample_callsite WARNING
           (get (logs_created_message sample_log ''/a/b/logs''))) @ NL
   \<and> fst (post_init sample_platform sample_start ''/a/b/test.py'' sample_callsite sample_callsite
          sample_world_logs) = Inr sample_log
   \<and> stderr (snd (post_init sample_platform sample_start ''/a/b/test.py'' sample_callsite
                sample_callsite sample_world_logs)) = []
   \<and> fst (post_init sample_platform sample_start ''/a/b/test.py'' sample_callsite sample_callsite
          sample_world_bare) = Inl FileNotFoundError"
proof -
  have h1: "root_handlers sample_world = []" by (simp add: sample_world_def)
  have h2: "root_handlers sample_world_logs = []" by (simp add: sample_world_logs_def)
  have h3: "root_handlers sample_world_bare = []" by (simp add: sample_world_bare_def)
  note t1 = post_init_logs_directory [OF h1, of sample_platform sample_start "''/a/b/test.py''"
      sample_callsite sample_callsite]
  note t2 = post_init_logs_directory [OF h2, of sample_platform sample_start "''/a/b/test.py''"
      sample_callsite sample_callsite]
  note t3 = post_init_logs_directory [OF h3, of sample_platform sample_start "''/a/b/test.py''"
      sample_callsite sample_callsite]
  have c1: "\<not> os_path_exists (fs sample_world) (logs_dirpathname sample_log)
          \<and> parent_dir (fs sample_world) (logs_dirpathname sample_log) = Some (Dir True)
          \<and> fs sample_world (get_filepathname (exec_info sample_log)) = None"
    by (simp add: os_path_exists_def sample_log_paths lookup_ab parent_of_logs sample_world_def
        sample_logfile_def)
  have c2: "lookup (fs sample_world_logs) (logs_dirpathname sample_log) = Some (Dir True)
          \<and> (case fs sample_world_logs (get_filepathname (exec_info sample_log)) of
                Some (Dir b) \<Rightarrow> False | _ \<Rightarrow> True)"
    by (simp add: sample_log_paths lookup_ab sample_world_logs_def sample_logfile_def)
  have c3: "\<not> os_path_exists (fs sample_world_bare) (logs_dirpathname sample_log)
          \<and> parent_dir (fs sample_world_bare) (logs_dirpathname sample_log) = None"
    by (simp add: os_path_exists_def sample_log_paths lookup_ab parent_of_logs
        sample_world_bare_def)
  have r1: "post_init sample_platform sample_start ''/a/b/test.py'' sample_callsite
              sample_callsite sample_world
        = (Inr sample_log,
           sample_world\<lparr>root_level := DEBUG,
             root_handlers :=
               [handler_file_fyi (get_filepathname (exec_info sample_log)),
                handler_file_alert (get_filepathname (exec_info sample_log)),
                handler_stderr_alert],
             fs := (fs sample_world)
               (logs_dirpathname sample_log \<mapsto> Dir True,
                get_filepathname (exec_info sample_log) \<mapsto>
                  File (fmt_file_fyi glyph_black_square
                          (makeRecord sample_callsite INFO (get_header sample_platform sample_log)) @ NL
                        @ fmt_file_alert glyph_orange_square
                            (makeRecord sample_callsite WARNING
                               (get (logs_created_message sample_log
                                       (logs_dirpathname sample_log)))) @ NL)),
             stderr := stderr sample_world
               @ fmt_stderr_alert
                   (makeRecord sample_callsite WARNING
                      (get (logs_created_message sample_log
                              (logs_dirpathname sample_log)))) @ NL\<rparr>)"
    using t1 c1 unfolding sample_new_Log by blast
  have r2: "post_init sample_platform sample_start ''/a/b/test.py'' sample_callsite
              sample_callsite sample_world_logs
        = (Inr sample_log,
           sample_world_logs\<lparr>root_level := DEBUG,
             root_handlers :=
               [handler_file_fyi (get_filepathname (exec_info sample_log)),
                handler_file_alert (get_filepathname (exec_info sample_log)),
                handler_stderr_alert],
             fs := (fs sample_world_logs)
               (get_filepathname (exec_info sample_log) \<mapsto>
                  File (file_content sample_world_logs (get_filepathname (exec_info sample_log))
                        @ fmt_file_fyi glyph_black_square
                            (makeRecord sample_callsite INFO (get_header sample_platform sample_log))
                        @ NL))\<rparr>)"
    using t2 c2 unfolding sample_new_Log by blast
  have r3: "post_init sample_platform sample_start ''/a/b/test.py'' sample_callsite
              sample_callsite sample_world_bare = (Inl FileNotFoundError, sample_world_bare)"
    using t3 c3 unfolding sample_new_Log by blast
  have s1: "stderr sample_world = []" by (simp add: sample_world_def)
  have s2: "stderr sample_world_logs = []" by (simp add: sample_world_logs_def)
  show ?thesis
    apply (intro conjI)
    subgoal by (rule h1)
    subgoal by (simp add: r1)
    subgoal by (simp add: r1 sample_log_paths sample_logfile_def)
    subgoal by (simp add: r1 s1 sample_log_paths)
    subgoal by (simp add: r2)
    subgoal by (simp add: r2 s2)
    subgoal by (simp add: r3)
    done
qed





text \<open>Claim C8 at a sample session.\<close>

theorem terminate_without_final_directory_witness:
  "session_active sample_log sample_session
   \<and> fst (terminate sample_log sample_end None sample_callsite sample_session) = None
   \<and> dom (fs (snd (snd (terminate sample_log sample_end None sample_callsite sample_session))))
       = dom (fs sample_session)
   \<and> stderr (snd (snd (terminate sample_log sample_end None sample_callsite sample_session))) = []
   \<and> prefix (''========== ENDING =========='' @ NL
              @ ''*** Final log directory not specified. ***'' @ NL)
        (footer_of sample_log sample_end None)"
proof -
  note t = terminate_without_final_directory [OF sample_session_active, of sample_end sample_callsite]
  have e: "terminate sample_log sample_end None sample_callsite sample_session
        = (None, snd (terminate_begin sample_log sample_end None),
           sample_session\<lparr>fs := (fs sample_session)(get_filepathname (exec_info sample_log) \<mapsto>
                  File (file_content sample_session (get_filepathname (exec_info sample_log))
                        @ fmt_file_fyi glyph_black_square
                            (makeRecord sample_callsite INFO (footer_of sample_log sample_end None))
                        @ NL))\<rparr>)"
    using t by blast
  have d: "dom (fs (snd (snd (terminate sample_log sample_end None sample_callsite sample_session))))
       = dom (fs sample_session)"
    using t by blast
  have p: "prefix (''========== ENDING =========='' @ NL
              @ ''*** Final log directory not specified. ***'' @ NL)
        (footer_of sample_log sample_end None)"
    using t by blast
  have s: "stderr sample_session = []" by (simp add: sample_session_def)
  show ?thesis
    apply (intro conjI)
    subgoal by (rule sample_session_active)
    subgoal by (simp add: e)
    subgoal by (rule d)
    subgoal by (simp add: e s)
    subgoal by (rule p)
    done
qed

text \<open>Claim C10 at a sample: the final directory \<open>/out\<close>.\<close>

theorem terminate_copy_source_and_footer_path_witness:
  "final (directories (exec_info sample_log)) = None
   \<and> sep \<notin> set (module_basename (exec_info sample_log))
   \<and> fst (terminate_begin sample_log sample_end (Some ''/out''))
       = ''/a/b/logs/test_20240305070809.log''
   \<and> get_filepathname (exec_info (snd (terminate_begin sample_log sample_end (Some ''/out''))))
       = ''/out/test_20240305070809.log''"
proof -
  have h1: "final (directories (exec_info sample_log)) = None" by (rule sample_log_fields(3))
  have h2: "sep \<notin> set (module_basename (exec_info sample_log))"
    by (simp add: sample_log_fields sep_def)
  note t = terminate_copy_source_and_footer_path [OF h1 h2, of sample_end "''/out''"]
  have a: "fst (terminate_begin sample_log sample_end (Some ''/out''))
           = os_path_join (initial (directories (exec_info sample_log))) ''logs'' @ ''/''
             @ basename_ext (exec_info sample_log)"
    using t by blast
  have b: "get_filepathname (exec_info (snd (terminate_begin sample_log sample_end (Some ''/out''))))
        = os_path_join ''/out'' (basename_ext (exec_info sample_log))"
    using t by blast
  have j: "os_path_join ''/a/b'' ''logs'' = ''/a/b/logs''" by code_simp
  show ?thesis
    using h1 h2 a b by (simp add: sample_log_fields sample_log_paths sample_dirnames j)
qed


end
